theory Spec2Isabelle
  imports Main "HOL-Library.Log_Nat"
begin

section \<open>Python values\<close>

text \<open>
  A Python \<open>str\<close> is a sequence of Unicode code points; \<open>bytes\<close> is a sequence of
  numbers below 256. Both are lists of naturals here. \<open>ustr\<close> writes a \<open>str\<close> literal
  of the source from an ASCII literal.
\<close>

type_synonym pystr = "nat list"
type_synonym pybytes = "nat list"

definition ustr :: "string \<Rightarrow> pystr" where
  "ustr s = map of_char s"

text \<open>
  A Python \<open>float\<close> is an IEEE binary64 value: a finite value is kept as the rational
  it denotes (the sign of zero is not kept), beside the two infinities and NaN.
\<close>

datatype pyfloat = Finite rat | PosInf | NegInf | NaN

text \<open>The values a document of the store or a JSON response holds.\<close>

datatype pyval =
    PNone
  | PBool bool
  | PInt int
  | PFloat pyfloat
  | PStr pystr
  | PList "pyval list"
  | PDict "(string \<times> pyval) list"
  | PObjectId pybytes

text \<open>A \<open>dict\<close> with \<open>str\<close> keys, in insertion order.\<close>

type_synonym dict = "(string \<times> pyval) list"

definition dict_get :: "dict \<Rightarrow> string \<Rightarrow> pyval option" where
  "dict_get d k = map_of d k"

fun dict_set :: "string \<Rightarrow> pyval \<Rightarrow> dict \<Rightarrow> dict" where
  "dict_set k v [] = [(k, v)]"
| "dict_set k v (p # ps) = (if fst p = k then (k, v) # ps else p # dict_set k v ps)"

definition dict_del :: "string \<Rightarrow> dict \<Rightarrow> dict" where
  "dict_del k d = filter (\<lambda>p. fst p \<noteq> k) d"

text \<open>The exceptions the handlers can meet, and what a handler's call ends in.\<close>

datatype exn =
    TypeError
  | AttributeError
  | ValueError
  | ValidationError
  | UnicodeDecodeError
  | CsvError
  | OverflowError
  | InvalidId
  | ConnectionFailure
  | StorageError

datatype detail = Detail string | StrExn exn | InvalidCSV exn

datatype 'a outcome =
    Returned 'a
  | HTTPException nat detail
  | Unhandled exn

text \<open>
  The status code of the response: 200 for a returned value, the code of a raised
  \<open>HTTPException\<close>, and 500 for an exception no handler catches.
\<close>

fun status_code :: "'a outcome \<Rightarrow> nat" where
  "status_code (Returned _) = 200"
| "status_code (HTTPException c _) = c"
| "status_code (Unhandled _) = 500"

section \<open>bson.ObjectId\<close>

definition Py_ISSPACE :: "nat \<Rightarrow> bool" where
  "Py_ISSPACE c = (c = 32 \<or> (9 \<le> c \<and> c \<le> 13))"

definition hexval :: "nat \<Rightarrow> nat option" where
  "hexval c =
     (if 48 \<le> c \<and> c \<le> 57 then Some (c - 48)
      else if 97 \<le> c \<and> c \<le> 102 then Some (c - 87)
      else if 65 \<le> c \<and> c \<le> 70 then Some (c - 55)
      else None)"

text \<open>
  \<open>bytes.fromhex\<close>: two hexadecimal digits a byte, ASCII whitespace allowed between
  bytes (not inside one); \<open>None\<close> is the \<open>ValueError\<close>.
\<close>

fun bytes_fromhex :: "pystr \<Rightarrow> pybytes option" where
  "bytes_fromhex [] = Some []"
| "bytes_fromhex [c] = (if Py_ISSPACE c then Some [] else None)"
| "bytes_fromhex (c # d # ds) =
     (if Py_ISSPACE c then bytes_fromhex (d # ds)
      else (case hexval c of
              None \<Rightarrow> None
            | Some hi \<Rightarrow>
               (case hexval d of
                  None \<Rightarrow> None
                | Some lo \<Rightarrow> map_option ((#) (hi * 16 + lo)) (bytes_fromhex ds))))"

text \<open>
  \<open>ObjectId(oid)\<close> for a \<open>str\<close>: the string has 24 characters and \<open>bytes.fromhex\<close>
  accepts it; \<open>None\<close> is \<open>InvalidId\<close>. \<open>ObjectId.is_valid\<close> tries the constructor.
\<close>

definition ObjectId :: "pystr \<Rightarrow> pybytes option" where
  "ObjectId oid = (if length oid = 24 then bytes_fromhex oid else None)"

definition is_valid :: "pystr \<Rightarrow> bool" where
  "is_valid oid = (ObjectId oid \<noteq> None)"

text \<open>An identifier written the usual way: 24 hexadecimal digits.\<close>

definition hex24 :: "pystr \<Rightarrow> bool" where
  "hex24 oid = (length oid = 24 \<and> list_all (\<lambda>c. hexval c \<noteq> None) oid)"

definition hexdigit :: "nat \<Rightarrow> nat" where
  "hexdigit n = (if n < 10 then 48 + n else 87 + n)"

text \<open>\<open>str(ObjectId)\<close>: the bytes in lower-case hexadecimal.\<close>

definition str_ObjectId :: "pybytes \<Rightarrow> pystr" where
  "str_ObjectId bs = concat (map (\<lambda>b. [hexdigit (b div 16), hexdigit (b mod 16)]) bs)"

section \<open>The document store\<close>

text \<open>
  \<open>db\<close> of the source is the handle of a MongoDB database, or \<open>None\<close> when the
  environment names no database. A database has named collections of documents in
  insertion order; \<open>reachable\<close> says whether its server answers. The identifiers it
  assigns come from a counter (\<open>next_oid\<close>): what matters of an ObjectId here is that
  it has twelve bytes and is new. \<open>trace\<close> lists the operations sent to the store.
\<close>

datatype access = FindOne string | Find string | UpdateOne string | InsertOne string

record database =
  colls :: "string \<Rightarrow> dict list"
  next_oid :: nat
  reachable :: bool

record world =
  db :: "database option"
  trace :: "access list"

fun update_first :: "('a \<Rightarrow> bool) \<Rightarrow> ('a \<Rightarrow> 'a) \<Rightarrow> 'a list \<Rightarrow> 'a list" where
  "update_first P f [] = []"
| "update_first P f (x # xs) = (if P x then f x # xs else x # update_first P f xs)"

definition has_id :: "pybytes \<Rightarrow> dict \<Rightarrow> bool" where
  "has_id oid doc = (dict_get doc ''_id'' = Some (PObjectId oid))"

text \<open>\<open>db[coll].find_one({"_id": oid})\<close>. Subscripting \<open>None\<close> is a \<open>TypeError\<close>.\<close>

definition find_one_id :: "string \<Rightarrow> pybytes \<Rightarrow> world \<Rightarrow> (exn + dict option) \<times> world" where
  "find_one_id coll oid w =
     (case db w of
        None \<Rightarrow> (Inl TypeError, w)
      | Some d \<Rightarrow>
         (if reachable d
          then (Inr (find (has_id oid) (colls d coll)), w\<lparr>trace := trace w @ [FindOne coll]\<rparr>)
          else (Inl ConnectionFailure, w\<lparr>trace := trace w @ [FindOne coll]\<rparr>)))"

text \<open>\<open>db[coll].update_one({"_id": oid}, {"$set": {key: v}})\<close>: the first match, if any.\<close>

definition update_one_set ::
  "string \<Rightarrow> pybytes \<Rightarrow> string \<Rightarrow> pyval \<Rightarrow> world \<Rightarrow> (exn + unit) \<times> world" where
  "update_one_set coll oid key v w =
     (case db w of
        None \<Rightarrow> (Inl TypeError, w)
      | Some d \<Rightarrow>
         (if reachable d
          then (Inr (),
                w\<lparr>db := Some (d\<lparr>colls := (colls d)
                         (coll := update_first (has_id oid) (dict_set key v) (colls d coll))\<rparr>),
                  trace := trace w @ [UpdateOne coll]\<rparr>)
          else (Inl ConnectionFailure, w\<lparr>trace := trace w @ [UpdateOne coll]\<rparr>)))"

section \<open>Floating point\<close>

definition pow2 :: "int \<Rightarrow> rat" where
  "pow2 e = (if 0 \<le> e then 2 ^ nat e else 1 / 2 ^ nat (- e))"

definition floor_log2 :: "rat \<Rightarrow> int" where
  "floor_log2 r =
     (let (p, q) = quotient_of r; k = bitlen p - bitlen q
      in if pow2 k \<le> r then k else k - 1)"

definition round_half_even :: "rat \<Rightarrow> int" where
  "round_half_even x =
     (let n = \<lfloor>x\<rfloor>; d = x - of_int n
      in if d < 1 / 2 then n else if 1 / 2 < d then n + 1 else if even n then n else n + 1)"

definition fl_round :: "rat \<Rightarrow> pyfloat" where
  "fl_round r =
     (if r = 0 then Finite 0
      else let a = \<bar>r\<bar>;
               e = max (floor_log2 a - 52) (- 1074);
               m = round_half_even (a / pow2 e);
               v = of_int m * pow2 e
           in if pow2 1024 \<le> v then (if 0 < r then PosInf else NegInf)
              else Finite (if 0 < r then v else - v))"

definition float_of_int :: "int \<Rightarrow> exn + pyfloat" where
  "float_of_int n =
     (case fl_round (of_int n) of
        Finite r \<Rightarrow> Inr (Finite r)
      | _ \<Rightarrow> Inl OverflowError)"

fun float_mul :: "pyfloat \<Rightarrow> pyfloat \<Rightarrow> pyfloat" where
  "float_mul (Finite x) (Finite y) = fl_round (x * y)"
| "float_mul NaN _ = NaN"
| "float_mul _ NaN = NaN"
| "float_mul (Finite x) PosInf = (if x = 0 then NaN else if 0 < x then PosInf else NegInf)"
| "float_mul (Finite x) NegInf = (if x = 0 then NaN else if 0 < x then NegInf else PosInf)"
| "float_mul PosInf (Finite y) = (if y = 0 then NaN else if 0 < y then PosInf else NegInf)"
| "float_mul NegInf (Finite y) = (if y = 0 then NaN else if 0 < y then NegInf else PosInf)"
| "float_mul PosInf PosInf = PosInf"
| "float_mul PosInf NegInf = NegInf"
| "float_mul NegInf PosInf = NegInf"
| "float_mul NegInf NegInf = PosInf"

definition float_mul_int :: "pyfloat \<Rightarrow> int \<Rightarrow> exn + pyfloat" where
  "float_mul_int x n =
     (case float_of_int n of
        Inl e \<Rightarrow> Inl e
      | Inr y \<Rightarrow> Inr (float_mul x y))"

fun round2 :: "pyfloat \<Rightarrow> exn + pyfloat" where
  "round2 (Finite r) =
     (case fl_round (of_int (round_half_even (r * 100)) / 100) of
        Finite r' \<Rightarrow> Inr (Finite r')
      | _ \<Rightarrow> Inl OverflowError)"
| "round2 x = Inr x"

fun float_ge0 :: "pyfloat \<Rightarrow> bool" where
  "float_ge0 (Finite r) = (0 \<le> r)"
| "float_ge0 PosInf = True"
| "float_ge0 _ = False"

section \<open>Schemas\<close>

text \<open>
  The pydantic models of \<open>schemas.py\<close>. A \<open>Literal\<close> field the handlers receive
  validated is a datatype; the status fields of an order, which the store can hold with
  any string, are strings. Fields of two models with one name carry the model's name.
\<close>

datatype sport = cricket | football | basketball | kabaddi | hockey | badminton

record JerseyTemplate =
  template_sport :: sport
  template_name :: pystr
  colors :: "pystr list"
  preview_url :: "pystr option"
  svg :: "pystr option"
  is_public :: bool

datatype jersey_size = SizeXS | SizeS | SizeM | SizeL | SizeXL | SizeXXL

record TeamRosterEntry =
  entry_name :: pystr
  number :: pystr
  entry_size :: jersey_size

record Team =
  team_name :: pystr
  team_sport :: pystr
  roster :: "TeamRosterEntry list"
  logo_url :: "pystr option"
  sponsor_logo_url :: "pystr option"

record JerseyDesign =
  front_color :: pystr
  back_color :: pystr
  accents :: "pystr list"
  text_elements :: "pyval list"
  logo_elements :: "pyval list"

datatype pay_method = upi | card | netbanking

record PaymentIntent =
  pay_order_id :: "pystr option"
  pay_amount :: pyfloat
  currency :: pystr
  pay_method :: pay_method
  pay_status :: pystr

record JerseyOrder =
  customer_name :: pystr
  customer_email :: pystr
  customer_phone :: pystr
  shipping_address :: pystr
  team_id :: "pystr option"
  template_id :: "pystr option"
  design :: JerseyDesign
  quantity :: int
  pricing_tier :: "pystr option"
  order_amount :: pyfloat
  payment_status :: pystr
  order_status :: pystr

record PricingTier =
  tier_name :: pystr
  base_price :: pyfloat
  min_quantity :: int
  features :: "pystr list"

record CheckoutRequest =
  req_customer_name :: pystr
  req_customer_email :: pystr
  req_customer_phone :: pystr
  req_shipping_address :: pystr
  req_team_id :: "pystr option"
  req_template_id :: "pystr option"
  req_design :: JerseyDesign
  req_quantity :: int
  req_method :: pystr

fun str_of_sport :: "sport \<Rightarrow> pystr" where
  "str_of_sport cricket = ustr ''cricket''"
| "str_of_sport football = ustr ''football''"
| "str_of_sport basketball = ustr ''basketball''"
| "str_of_sport kabaddi = ustr ''kabaddi''"
| "str_of_sport hockey = ustr ''hockey''"
| "str_of_sport badminton = ustr ''badminton''"

definition sport_of_str :: "pystr \<Rightarrow> sport option" where
  "sport_of_str s =
     map_of (map (\<lambda>x. (str_of_sport x, x))
               [cricket, football, basketball, kabaddi, hockey, badminton]) s"

fun str_of_size :: "jersey_size \<Rightarrow> pystr" where
  "str_of_size SizeXS = ustr ''XS''"
| "str_of_size SizeS = ustr ''S''"
| "str_of_size SizeM = ustr ''M''"
| "str_of_size SizeL = ustr ''L''"
| "str_of_size SizeXL = ustr ''XL''"
| "str_of_size SizeXXL = ustr ''XXL''"

definition size_of_str :: "pystr \<Rightarrow> jersey_size option" where
  "size_of_str s =
     map_of (map (\<lambda>x. (str_of_size x, x)) [SizeXS, SizeS, SizeM, SizeL, SizeXL, SizeXXL]) s"

fun str_of_method :: "pay_method \<Rightarrow> pystr" where
  "str_of_method upi = ustr ''upi''"
| "str_of_method card = ustr ''card''"
| "str_of_method netbanking = ustr ''netbanking''"

definition method_of_str :: "pystr \<Rightarrow> pay_method option" where
  "method_of_str s = map_of (map (\<lambda>x. (str_of_method x, x)) [upi, card, netbanking]) s"

text \<open>\<open>model_dump\<close>: a model as the \<open>dict\<close> of its fields.\<close>

definition dump_opt :: "pystr option \<Rightarrow> pyval" where
  "dump_opt x = (case x of None \<Rightarrow> PNone | Some s \<Rightarrow> PStr s)"

definition dump_JerseyTemplate :: "JerseyTemplate \<Rightarrow> dict" where
  "dump_JerseyTemplate t =
     [(''sport'', PStr (str_of_sport (template_sport t))),
      (''name'', PStr (template_name t)),
      (''colors'', PList (map PStr (colors t))),
      (''preview_url'', dump_opt (preview_url t)),
      (''svg'', dump_opt (svg t)),
      (''is_public'', PBool (is_public t))]"

definition dump_TeamRosterEntry :: "TeamRosterEntry \<Rightarrow> dict" where
  "dump_TeamRosterEntry e =
     [(''name'', PStr (entry_name e)),
      (''number'', PStr (number e)),
      (''size'', PStr (str_of_size (entry_size e)))]"

definition dump_Team :: "Team \<Rightarrow> dict" where
  "dump_Team t =
     [(''team_name'', PStr (team_name t)),
      (''sport'', PStr (team_sport t)),
      (''roster'', PList (map (\<lambda>e. PDict (dump_TeamRosterEntry e)) (roster t))),
      (''logo_url'', dump_opt (logo_url t)),
      (''sponsor_logo_url'', dump_opt (sponsor_logo_url t))]"

definition dump_JerseyDesign :: "JerseyDesign \<Rightarrow> dict" where
  "dump_JerseyDesign g =
     [(''front_color'', PStr (front_color g)),
      (''back_color'', PStr (back_color g)),
      (''accents'', PList (map PStr (accents g))),
      (''text_elements'', PList (text_elements g)),
      (''logo_elements'', PList (logo_elements g))]"

definition dump_PaymentIntent :: "PaymentIntent \<Rightarrow> dict" where
  "dump_PaymentIntent p =
     [(''order_id'', dump_opt (pay_order_id p)),
      (''amount'', PFloat (pay_amount p)),
      (''currency'', PStr (currency p)),
      (''method'', PStr (str_of_method (pay_method p))),
      (''status'', PStr (pay_status p))]"

definition dump_JerseyOrder :: "JerseyOrder \<Rightarrow> dict" where
  "dump_JerseyOrder ord =
     [(''customer_name'', PStr (customer_name ord)),
      (''customer_email'', PStr (customer_email ord)),
      (''customer_phone'', PStr (customer_phone ord)),
      (''shipping_address'', PStr (shipping_address ord)),
      (''team_id'', dump_opt (team_id ord)),
      (''template_id'', dump_opt (template_id ord)),
      (''design'', PDict (dump_JerseyDesign (design ord))),
      (''quantity'', PInt (quantity ord)),
      (''pricing_tier'', dump_opt (pricing_tier ord)),
      (''amount'', PFloat (order_amount ord)),
      (''payment_status'', PStr (payment_status ord)),
      (''status'', PStr (order_status ord))]"

definition dump_PricingTier :: "PricingTier \<Rightarrow> dict" where
  "dump_PricingTier t =
     [(''name'', PStr (tier_name t)),
      (''base_price'', PFloat (base_price t)),
      (''min_quantity'', PInt (min_quantity t)),
      (''features'', PList (map PStr (features t)))]"

datatype model =
    MTemplate JerseyTemplate
  | MTeam Team
  | MOrder JerseyOrder
  | MPayment PaymentIntent
  | MTier PricingTier

fun model_dump :: "model \<Rightarrow> dict" where
  "model_dump (MTemplate t) = dump_JerseyTemplate t"
| "model_dump (MTeam t) = dump_Team t"
| "model_dump (MOrder ord) = dump_JerseyOrder ord"
| "model_dump (MPayment p) = dump_PaymentIntent p"
| "model_dump (MTier t) = dump_PricingTier t"

text \<open>
  Building a model from keyword arguments validates them. A field is read from the
  \<open>dict\<close>; a key that is no field is ignored. A value of another type than its field's
  is refused: pydantic's conversions between types are left out, the store holding what
  \<open>model_dump\<close> wrote.
\<close>

definition bind_exn :: "exn + 'a \<Rightarrow> ('a \<Rightarrow> exn + 'b) \<Rightarrow> exn + 'b" where
  "bind_exn m f = (case m of Inl e \<Rightarrow> Inl e | Inr x \<Rightarrow> f x)"

definition field_str :: "dict \<Rightarrow> string \<Rightarrow> exn + pystr" where
  "field_str d k = (case dict_get d k of Some (PStr s) \<Rightarrow> Inr s | _ \<Rightarrow> Inl ValidationError)"

definition as_opt_str :: "pyval option \<Rightarrow> exn + pystr option" where
  "as_opt_str v =
     (case v of
        None \<Rightarrow> Inr None
      | Some PNone \<Rightarrow> Inr None
      | Some (PStr s) \<Rightarrow> Inr (Some s)
      | _ \<Rightarrow> Inl ValidationError)"

fun as_str_list :: "pyval list \<Rightarrow> exn + pystr list" where
  "as_str_list [] = Inr []"
| "as_str_list (PStr s # vs) = bind_exn (as_str_list vs) (\<lambda>ss. Inr (s # ss))"
| "as_str_list (_ # vs) = Inl ValidationError"

definition field_colors :: "dict \<Rightarrow> exn + pystr list" where
  "field_colors d =
     (case dict_get d ''colors'' of
        None \<Rightarrow> Inr [ustr ''#0A66C2'', ustr ''#FF6F00'']
      | Some (PList vs) \<Rightarrow> as_str_list vs
      | _ \<Rightarrow> Inl ValidationError)"

definition field_is_public :: "dict \<Rightarrow> exn + bool" where
  "field_is_public d =
     (case dict_get d ''is_public'' of
        None \<Rightarrow> Inr True
      | Some (PBool b) \<Rightarrow> Inr b
      | _ \<Rightarrow> Inl ValidationError)"

definition field_sport :: "dict \<Rightarrow> exn + sport" where
  "field_sport d =
     bind_exn (field_str d ''sport'')
       (\<lambda>s. case sport_of_str s of None \<Rightarrow> Inl ValidationError | Some x \<Rightarrow> Inr x)"

text \<open>\<open>JerseyTemplate(**d)\<close>\<close>

definition new_JerseyTemplate :: "dict \<Rightarrow> exn + JerseyTemplate" where
  "new_JerseyTemplate d =
     bind_exn (field_sport d) (\<lambda>sp.
     bind_exn (field_str d ''name'') (\<lambda>n.
     bind_exn (field_colors d) (\<lambda>cs.
     bind_exn (as_opt_str (dict_get d ''preview_url'')) (\<lambda>p.
     bind_exn (as_opt_str (dict_get d ''svg'')) (\<lambda>sv.
     bind_exn (field_is_public d) (\<lambda>pub.
       Inr \<lparr>template_sport = sp, template_name = n, colors = cs, preview_url = p,
            svg = sv, is_public = pub\<rparr>))))))"

text \<open>\<open>TeamRosterEntry(name=..., number=..., size=...)\<close>: \<open>size\<close> is one of the six.\<close>

definition new_TeamRosterEntry :: "pystr \<Rightarrow> pystr \<Rightarrow> pystr \<Rightarrow> exn + TeamRosterEntry" where
  "new_TeamRosterEntry n num sz =
     (case size_of_str sz of
        None \<Rightarrow> Inl ValidationError
      | Some x \<Rightarrow> Inr \<lparr>entry_name = n, number = num, entry_size = x\<rparr>)"

text \<open>\<open>Team(team_name=..., sport=..., roster=...)\<close>: nothing to refuse.\<close>

definition new_Team :: "pystr \<Rightarrow> pystr \<Rightarrow> TeamRosterEntry list \<Rightarrow> Team" where
  "new_Team tn sp r =
     \<lparr>team_name = tn, team_sport = sp, roster = r, logo_url = None, sponsor_logo_url = None\<rparr>"

text \<open>
  \<open>JerseyOrder(...)\<close> as \<open>checkout\<close> calls it: \<open>quantity\<close> is at least 1, \<open>amount\<close> at
  least 0, \<open>pricing_tier\<close> a string or \<open>None\<close>; the two status fields take their defaults.
\<close>

definition new_JerseyOrder :: "CheckoutRequest \<Rightarrow> pyval \<Rightarrow> pyfloat \<Rightarrow> exn + JerseyOrder" where
  "new_JerseyOrder req tier amount =
     (if req_quantity req < 1 \<or> \<not> float_ge0 amount then Inl ValidationError
      else bind_exn (as_opt_str (Some tier)) (\<lambda>pt.
        Inr \<lparr>customer_name = req_customer_name req,
             customer_email = req_customer_email req,
             customer_phone = req_customer_phone req,
             shipping_address = req_shipping_address req,
             team_id = req_team_id req,
             template_id = req_template_id req,
             design = req_design req,
             quantity = req_quantity req,
             pricing_tier = pt,
             order_amount = amount,
             payment_status = ustr ''pending'',
             order_status = ustr ''Confirmed''\<rparr>))"

text \<open>\<open>PaymentIntent(order_id=..., amount=..., method=...)\<close>\<close>

definition new_PaymentIntent :: "pystr \<Rightarrow> pyfloat \<Rightarrow> pystr \<Rightarrow> exn + PaymentIntent" where
  "new_PaymentIntent oid amount method =
     (if \<not> float_ge0 amount then Inl ValidationError
      else (case method_of_str method of
              None \<Rightarrow> Inl ValidationError
            | Some m \<Rightarrow>
               Inr \<lparr>pay_order_id = Some oid, pay_amount = amount, currency = ustr ''INR'',
                    pay_method = m, pay_status = ustr ''created''\<rparr>))"

section \<open>The persistence accessor\<close>

definition oid_of_nat :: "nat \<Rightarrow> pybytes" where
  "oid_of_nat n = map (\<lambda>i. (n div 256 ^ (11 - i)) mod 256) [0..<12]"

text \<open>
  Modelled from the spec: \<open>create_document\<close> and \<open>get_documents\<close> of \<open>database.py\<close>,
  which is not among the sources. \<open>create\<close> "serializes the entity (dropping any
  internal identifier field) and inserts it, returning a newly assigned opaque
  identifier as a string"; \<open>list\<close> "returns all records in a collection"; both "must
  fail with a StorageError if the underlying store is unreachable or the write/read
  fails".
\<close>

definition stored_doc :: "pybytes \<Rightarrow> model \<Rightarrow> dict" where
  "stored_doc oid m = (''_id'', PObjectId oid) # dict_del ''_id'' (model_dump m)"

definition create_document :: "string \<Rightarrow> model \<Rightarrow> world \<Rightarrow> (exn + pystr) \<times> world" where
  "create_document coll m w =
     (case db w of
        None \<Rightarrow> (Inl StorageError, w)
      | Some d \<Rightarrow>
         (if reachable d
          then (let oid = oid_of_nat (next_oid d)
                in (Inr (str_ObjectId oid),
                    w\<lparr>db := Some (d\<lparr>colls := (colls d)(coll := colls d coll @ [stored_doc oid m]),
                                    next_oid := next_oid d + 1\<rparr>),
                      trace := trace w @ [InsertOne coll]\<rparr>))
          else (Inl StorageError, w\<lparr>trace := trace w @ [InsertOne coll]\<rparr>)))"

definition get_documents :: "string \<Rightarrow> world \<Rightarrow> (exn + dict list) \<times> world" where
  "get_documents coll w =
     (case db w of
        None \<Rightarrow> (Inl StorageError, w)
      | Some d \<Rightarrow>
         (if reachable d
          then (Inr (colls d coll), w\<lparr>trace := trace w @ [Find coll]\<rparr>)
          else (Inl StorageError, w\<lparr>trace := trace w @ [Find coll]\<rparr>)))"

section \<open>Templates catalog\<close>

fun validate_all :: "dict list \<Rightarrow> exn + JerseyTemplate list" where
  "validate_all [] = Inr []"
| "validate_all (d # ds) =
     bind_exn (new_JerseyTemplate (filter (\<lambda>(k, v). k \<noteq> ''_id'') d)) (\<lambda>t.
     bind_exn (validate_all ds) (\<lambda>ts. Inr (t # ts)))"

text \<open>\<open>GET /api/templates\<close>, answered with the models the handler returns.\<close>

definition list_templates :: "world \<Rightarrow> JerseyTemplate list outcome \<times> world" where
  "list_templates w =
     (case get_documents ''jerseytemplate'' w of
        (Inl e, w') \<Rightarrow> (HTTPException 500 (StrExn e), w')
      | (Inr docs, w') \<Rightarrow>
         (case validate_all docs of
            Inl e \<Rightarrow> (HTTPException 500 (StrExn e), w')
          | Inr ts \<Rightarrow> (Returned ts, w')))"

text \<open>
  The response of \<open>GET /api/templates\<close> is written by
  \<open>response_model=List[JerseyTemplate]\<close>: each item is the model's fields.
\<close>

definition templates_json :: "JerseyTemplate list \<Rightarrow> dict list" where
  "templates_json ts = map dump_JerseyTemplate ts"

text \<open>\<open>POST /api/templates\<close>\<close>

definition create_template :: "JerseyTemplate \<Rightarrow> world \<Rightarrow> dict outcome \<times> world" where
  "create_template template w =
     (case create_document ''jerseytemplate'' (MTemplate template) w of
        (Inl e, w') \<Rightarrow> (HTTPException 500 (StrExn e), w')
      | (Inr new_id, w') \<Rightarrow> (Returned [(''id'', PStr new_id)], w'))"

section \<open>Pricing tiers and checkout\<close>

text \<open>\<open>POST /api/admin/tiers\<close>\<close>

definition create_tier :: "PricingTier \<Rightarrow> world \<Rightarrow> dict outcome \<times> world" where
  "create_tier tier w =
     (case create_document ''pricingtier'' (MTier tier) w of
        (Inl e, w') \<Rightarrow> (HTTPException 500 (StrExn e), w')
      | (Inr new_id, w') \<Rightarrow> (Returned [(''id'', PStr new_id)], w'))"

text \<open>
  \<open>db[coll].find_one({key: {"$lte": q}}, sort=[(key, -1)])\<close>: the documents whose
  \<open>key\<close> is an integer at most \<open>q\<close>, by \<open>key\<close> descending, and the first of them. A
  document of this service has an integer there; one with a value of another type is
  taken not to match. Among documents with one \<open>key\<close> the order is the store's: here
  the order of insertion.
\<close>

definition int_field :: "string \<Rightarrow> dict \<Rightarrow> int option" where
  "int_field key doc = (case dict_get doc key of Some (PInt n) \<Rightarrow> Some n | _ \<Rightarrow> None)"

definition matches_lte :: "string \<Rightarrow> int \<Rightarrow> dict \<Rightarrow> bool" where
  "matches_lte key q doc = (case int_field key doc of Some n \<Rightarrow> n \<le> q | None \<Rightarrow> False)"

definition sort_desc :: "string \<Rightarrow> dict list \<Rightarrow> dict list" where
  "sort_desc key docs = sort_key (\<lambda>doc. - (case int_field key doc of Some n \<Rightarrow> n | None \<Rightarrow> 0)) docs"

definition first_lte_desc :: "string \<Rightarrow> int \<Rightarrow> dict list \<Rightarrow> dict option" where
  "first_lte_desc key q docs =
     (case sort_desc key (filter (matches_lte key q) docs) of
        [] \<Rightarrow> None
      | doc # _ \<Rightarrow> Some doc)"

definition find_one_lte_desc :: "string \<Rightarrow> string \<Rightarrow> int \<Rightarrow> world \<Rightarrow> (exn + dict option) \<times> world" where
  "find_one_lte_desc coll key q w =
     (case db w of
        None \<Rightarrow> (Inl TypeError, w)
      | Some d \<Rightarrow>
         (if reachable d
          then (Inr (first_lte_desc key q (colls d coll)), w\<lparr>trace := trace w @ [FindOne coll]\<rparr>)
          else (Inl ConnectionFailure, w\<lparr>trace := trace w @ [FindOne coll]\<rparr>)))"

text \<open>
  \<open>float(x)\<close> of a stored value. A string would be parsed; the prices this service
  stores are numbers, and the strings are left out as a \<open>ValueError\<close>.
\<close>

fun py_float :: "pyval \<Rightarrow> exn + pyfloat" where
  "py_float (PFloat x) = Inr x"
| "py_float (PInt n) = float_of_int n"
| "py_float (PBool b) = Inr (Finite (if b then 1 else 0))"
| "py_float (PStr s) = Inl ValueError"
| "py_float _ = Inl TypeError"

text \<open>
  The pricing of \<open>checkout\<close>: the tier found (or none), its base price with 999.0
  for a missing one, and the amount \<open>round(base_price * quantity, 2)\<close>.
\<close>

definition tier_base_price :: "dict option \<Rightarrow> exn + pyfloat" where
  "tier_base_price tier_doc =
     (case tier_doc of
        None \<Rightarrow> Inr (Finite 999)
      | Some t \<Rightarrow>
         py_float (case dict_get t ''base_price'' of None \<Rightarrow> PFloat (Finite 999) | Some v \<Rightarrow> v))"

definition tier_pricing_name :: "dict option \<Rightarrow> pyval" where
  "tier_pricing_name tier_doc =
     (case tier_doc of
        None \<Rightarrow> PStr (ustr ''Starter'')
      | Some t \<Rightarrow> (case dict_get t ''name'' of None \<Rightarrow> PNone | Some v \<Rightarrow> v))"

definition compute_amount :: "pyfloat \<Rightarrow> int \<Rightarrow> exn + pyfloat" where
  "compute_amount price q = bind_exn (float_mul_int price q) round2"

text \<open>\<open>POST /api/checkout\<close>: every exception of the handler's body becomes a 500.\<close>

definition checkout_body :: "CheckoutRequest \<Rightarrow> world \<Rightarrow> (exn + dict) \<times> world" where
  "checkout_body req w =
     (case find_one_lte_desc ''pricingtier'' ''min_quantity'' (req_quantity req) w of
        (Inl e, w1) \<Rightarrow> (Inl e, w1)
      | (Inr tier_doc, w1) \<Rightarrow>
         (case bind_exn (tier_base_price tier_doc) (\<lambda>p. compute_amount p (req_quantity req)) of
            Inl e \<Rightarrow> (Inl e, w1)
          | Inr amount \<Rightarrow>
             (case new_JerseyOrder req (tier_pricing_name tier_doc) amount of
                Inl e \<Rightarrow> (Inl e, w1)
              | Inr order \<Rightarrow>
                 (case create_document ''jerseyorder'' (MOrder order) w1 of
                    (Inl e, w2) \<Rightarrow> (Inl e, w2)
                  | (Inr oid, w2) \<Rightarrow>
                     (case new_PaymentIntent oid amount (req_method req) of
                        Inl e \<Rightarrow> (Inl e, w2)
                      | Inr pay \<Rightarrow>
                         (case create_document ''paymentintent'' (MPayment pay) w2 of
                            (Inl e, w3) \<Rightarrow> (Inl e, w3)
                          | (Inr pid, w3) \<Rightarrow>
                             (Inr [(''order_id'', PStr oid), (''payment_id'', PStr pid),
                                   (''amount'', PFloat amount),
                                   (''currency'', PStr (ustr ''INR''))], w3)))))))"

text \<open>
  The answer is written as JSON, which has no infinity and no NaN: for such an amount
  the writing ends in a \<open>ValueError\<close> that nothing catches, after the handler has
  returned.
\<close>

fun is_finite :: "pyfloat \<Rightarrow> bool" where
  "is_finite (Finite r) = True"
| "is_finite _ = False"

definition checkout :: "CheckoutRequest \<Rightarrow> world \<Rightarrow> dict outcome \<times> world" where
  "checkout req w =
     (case checkout_body req w of
        (Inl e, w') \<Rightarrow> (HTTPException 500 (StrExn e), w')
      | (Inr body, w') \<Rightarrow>
         (case dict_get body ''amount'' of
            Some (PFloat x) \<Rightarrow> (if is_finite x then Returned body else Unhandled ValueError, w')
          | _ \<Rightarrow> (Returned body, w')))"

section \<open>Text\<close>

text \<open>
  \<open>bytes.decode("utf-8")\<close>: the well-formed byte sequences of the Unicode standard
  (no overlong form, no surrogate, nothing above U+10FFFF); \<open>None\<close> is the
  \<open>UnicodeDecodeError\<close>.
\<close>

definition cont :: "nat \<Rightarrow> bool" where
  "cont b = (128 \<le> b \<and> b \<le> 191)"

fun utf8_decode :: "pybytes \<Rightarrow> pystr option" where
  "utf8_decode [] = Some []"
| "utf8_decode (b0 # bs) =
     (if b0 < 128 then map_option ((#) b0) (utf8_decode bs)
      else if 194 \<le> b0 \<and> b0 \<le> 223 then
        (case bs of
           b1 # r \<Rightarrow>
             if cont b1
             then map_option ((#) ((b0 - 192) * 64 + (b1 - 128))) (utf8_decode r)
             else None
         | _ \<Rightarrow> None)
      else if 224 \<le> b0 \<and> b0 \<le> 239 then
        (case bs of
           b1 # b2 # r \<Rightarrow>
             if cont b1 \<and> cont b2 \<and> (b0 = 224 \<longrightarrow> 160 \<le> b1) \<and> (b0 = 237 \<longrightarrow> b1 \<le> 159)
             then map_option ((#) ((b0 - 224) * 4096 + (b1 - 128) * 64 + (b2 - 128)))
                    (utf8_decode r)
             else None
         | _ \<Rightarrow> None)
      else if 240 \<le> b0 \<and> b0 \<le> 244 then
        (case bs of
           b1 # b2 # b3 # r \<Rightarrow>
             if cont b1 \<and> cont b2 \<and> cont b3 \<and> (b0 = 240 \<longrightarrow> 144 \<le> b1)
                \<and> (b0 = 244 \<longrightarrow> b1 \<le> 143)
             then map_option
                    ((#) ((b0 - 240) * 262144 + (b1 - 128) * 4096 + (b2 - 128) * 64 + (b3 - 128)))
                    (utf8_decode r)
             else None
         | _ \<Rightarrow> None)
      else None)"

text \<open>\<open>str.isspace\<close> of one character, \<open>str.strip()\<close> and \<open>str.upper()\<close>.\<close>

definition is_whitespace :: "nat \<Rightarrow> bool" where
  "is_whitespace c =
     ((9 \<le> c \<and> c \<le> 13) \<or> (28 \<le> c \<and> c \<le> 32) \<or> c = 133 \<or> c = 160 \<or> c = 5760
      \<or> (8192 \<le> c \<and> c \<le> 8202) \<or> c = 8232 \<or> c = 8233 \<or> c = 8239 \<or> c = 8287
      \<or> c = 12288)"

definition strip :: "pystr \<Rightarrow> pystr" where
  "strip s = rev (dropWhile is_whitespace (rev (dropWhile is_whitespace s)))"

text \<open>
  The upper-case mapping of a character outside ASCII is a table of the Unicode
  character database: \<open>tbl\<close>, a parameter.
\<close>

definition upper :: "(nat \<Rightarrow> pystr) \<Rightarrow> pystr \<Rightarrow> pystr" where
  "upper tbl s =
     concat (map (\<lambda>c. if c < 128 then [if 97 \<le> c \<and> c \<le> 122 then c - 32 else c] else tbl c) s)"

section \<open>The csv module\<close>

text \<open>
  \<open>csv.reader\<close> in the \<open>excel\<close> dialect (delimiter comma, quote character \<open>"\<close>,
  doubled quotes, no escape character, not strict), as the state machine of CPython's
  \<open>_csv.c\<close>. The character \<open>None\<close> is the end of a line.
\<close>

datatype csv_state =
    START_RECORD
  | START_FIELD
  | IN_FIELD
  | IN_QUOTED_FIELD
  | QUOTE_IN_QUOTED_FIELD
  | EAT_CRNL

record reader =
  rd_state :: csv_state
  rd_field :: pystr
  rd_fields :: "pystr list"

definition parse_reset :: reader where
  "parse_reset = \<lparr>rd_state = START_RECORD, rd_field = [], rd_fields = []\<rparr>"

definition field_limit :: nat where
  "field_limit = 131072"

definition parse_save_field :: "reader \<Rightarrow> reader" where
  "parse_save_field r = r\<lparr>rd_fields := rd_fields r @ [rd_field r], rd_field := []\<rparr>"

definition parse_add_char :: "reader \<Rightarrow> nat \<Rightarrow> exn + reader" where
  "parse_add_char r c =
     (if field_limit \<le> length (rd_field r) then Inl CsvError
      else Inr (r\<lparr>rd_field := rd_field r @ [c]\<rparr>))"

definition is_newline :: "nat option \<Rightarrow> bool" where
  "is_newline c = (c = Some 10 \<or> c = Some 13 \<or> c = None)"

definition after_newline :: "nat option \<Rightarrow> csv_state" where
  "after_newline c = (if c = None then START_RECORD else EAT_CRNL)"

definition start_field :: "reader \<Rightarrow> nat option \<Rightarrow> exn + reader" where
  "start_field r c =
     (if is_newline c then Inr ((parse_save_field r)\<lparr>rd_state := after_newline c\<rparr>)
      else if c = Some 34 then Inr (r\<lparr>rd_state := IN_QUOTED_FIELD\<rparr>)
      else if c = Some 44 then Inr (parse_save_field r)
      else bind_exn (parse_add_char r (the c)) (\<lambda>r'. Inr (r'\<lparr>rd_state := IN_FIELD\<rparr>)))"

fun parse_process_char :: "reader \<Rightarrow> nat option \<Rightarrow> exn + reader" where
  "parse_process_char r c =
     (case rd_state r of
        START_RECORD \<Rightarrow>
          (if c = None then Inr r
           else if c = Some 10 \<or> c = Some 13 then Inr (r\<lparr>rd_state := EAT_CRNL\<rparr>)
           else start_field (r\<lparr>rd_state := START_FIELD\<rparr>) c)
      | START_FIELD \<Rightarrow> start_field r c
      | IN_FIELD \<Rightarrow>
          (if is_newline c then Inr ((parse_save_field r)\<lparr>rd_state := after_newline c\<rparr>)
           else if c = Some 44 then Inr ((parse_save_field r)\<lparr>rd_state := START_FIELD\<rparr>)
           else parse_add_char r (the c))
      | IN_QUOTED_FIELD \<Rightarrow>
          (if c = None then Inr r
           else if c = Some 34 then Inr (r\<lparr>rd_state := QUOTE_IN_QUOTED_FIELD\<rparr>)
           else parse_add_char r (the c))
      | QUOTE_IN_QUOTED_FIELD \<Rightarrow>
          (if c = Some 34
           then bind_exn (parse_add_char r 34) (\<lambda>r'. Inr (r'\<lparr>rd_state := IN_QUOTED_FIELD\<rparr>))
           else if c = Some 44 then Inr ((parse_save_field r)\<lparr>rd_state := START_FIELD\<rparr>)
           else if is_newline c then Inr ((parse_save_field r)\<lparr>rd_state := after_newline c\<rparr>)
           else bind_exn (parse_add_char r (the c)) (\<lambda>r'. Inr (r'\<lparr>rd_state := IN_FIELD\<rparr>)))
      | EAT_CRNL \<Rightarrow>
          (if c = Some 10 \<or> c = Some 13 then Inr r
           else if c = None then Inr (r\<lparr>rd_state := START_RECORD\<rparr>)
           else Inl CsvError))"

text \<open>One line of the input: its characters, then the end of the line.\<close>

fun feed_line :: "reader \<Rightarrow> pystr \<Rightarrow> exn + reader" where
  "feed_line r [] = parse_process_char r None"
| "feed_line r (c # cs) = bind_exn (parse_process_char r (Some c)) (\<lambda>r'. feed_line r' cs)"

text \<open>
  The lines \<open>io.StringIO(text)\<close> gives: cut after each \<open>\n\<close>, which stays in its line.
\<close>

fun lines_from :: "pystr \<Rightarrow> pystr \<Rightarrow> pystr list" where
  "lines_from acc [] = (if acc = [] then [] else [rev acc])"
| "lines_from acc (c # cs) =
     (if c = 10 then rev (c # acc) # lines_from [] cs else lines_from (c # acc) cs)"

text \<open>
  The records the reader gives, one \<open>next\<close> after the other, and the error that ends
  them if there is one: a record takes lines until the machine is back at the start of
  a record; at the end of the input a record under way is given as it stands.
\<close>

fun read_records :: "reader \<Rightarrow> pystr list \<Rightarrow> pystr list list \<times> exn option" where
  "read_records r [] =
     (if rd_field r \<noteq> [] \<or> rd_state r = IN_QUOTED_FIELD
      then ([rd_fields (parse_save_field r)], None)
      else ([], None))"
| "read_records r (l # ls) =
     (case feed_line r l of
        Inl e \<Rightarrow> ([], Some e)
      | Inr r' \<Rightarrow>
         (if rd_state r' = START_RECORD
          then (case read_records parse_reset ls of (recs, err) \<Rightarrow> (rd_fields r' # recs, err))
          else read_records r' ls))"

definition csv_reader :: "pystr \<Rightarrow> pystr list list \<times> exn option" where
  "csv_reader txt = read_records parse_reset (lines_from [] txt)"

text \<open>
  \<open>csv.DictReader\<close>: the first record is the header; a record with no field at all (a
  blank line) is passed over; a row is the \<open>dict\<close> of header names to fields (a later
  binding of a name wins), with \<open>None\<close> for the names a short record leaves out and the
  fields beyond the header under the key \<open>None\<close>.
\<close>

record csv_row =
  row_cells :: "(pystr \<times> pystr option) list"
  row_rest :: "pystr list option"

definition dict_row :: "pystr list \<Rightarrow> pystr list \<Rightarrow> csv_row" where
  "dict_row fieldnames rec =
     \<lparr>row_cells = zip fieldnames (map Some rec)
                   @ map (\<lambda>k. (k, None)) (drop (length rec) fieldnames),
      row_rest = (if length fieldnames < length rec then Some (drop (length fieldnames) rec)
                  else None)\<rparr>"

definition DictReader :: "pystr \<Rightarrow> csv_row list \<times> exn option" where
  "DictReader txt =
     (case csv_reader txt of
        ([], err) \<Rightarrow> ([], err)
      | (fieldnames # recs, err) \<Rightarrow>
          (map (dict_row fieldnames) (filter (\<lambda>rec. rec \<noteq> []) recs), err))"

text \<open>\<open>row.get(key, default)\<close> for a \<open>str\<close> key: the outer \<open>None\<close> is a missing key.\<close>

definition row_get :: "csv_row \<Rightarrow> pystr \<Rightarrow> pystr option option" where
  "row_get row key = map_of (rev (row_cells row)) key"

definition row_empty :: "csv_row \<Rightarrow> bool" where
  "row_empty row = (row_cells row = [] \<and> row_rest row = None)"

section \<open>Team import\<close>

text \<open>
  The entry of one row: \<open>.strip()\<close> of \<open>None\<close> is an \<open>AttributeError\<close>, and
  \<open>str(None)\<close> is \<open>"None"\<close>.
\<close>

definition row_entry :: "(nat \<Rightarrow> pystr) \<Rightarrow> csv_row \<Rightarrow> exn + TeamRosterEntry" where
  "row_entry tbl row =
     (case (case row_get row (ustr ''name'') of None \<Rightarrow> Some [] | Some v \<Rightarrow> v) of
        None \<Rightarrow> Inl AttributeError
      | Some n \<Rightarrow>
         (let num = (case row_get row (ustr ''number'') of
                       None \<Rightarrow> []
                     | Some None \<Rightarrow> ustr ''None''
                     | Some (Some s) \<Rightarrow> s)
          in (case (case row_get row (ustr ''size'') of None \<Rightarrow> Some (ustr ''M'') | Some v \<Rightarrow> v) of
                None \<Rightarrow> Inl AttributeError
              | Some sz \<Rightarrow>
                 (let sz' = upper tbl (strip sz)
                  in new_TeamRosterEntry (strip n) (strip num)
                       (if sz' = [] then ustr ''M'' else sz')))))"

text \<open>The loop over the rows: the roster so far, or the first exception.\<close>

fun roster_loop ::
  "(nat \<Rightarrow> pystr) \<Rightarrow> TeamRosterEntry list \<Rightarrow> csv_row list \<Rightarrow> exn + TeamRosterEntry list" where
  "roster_loop tbl acc [] = Inr acc"
| "roster_loop tbl acc (row # rows) =
     (if row_empty row then roster_loop tbl acc rows
      else bind_exn (row_entry tbl row) (\<lambda>e. roster_loop tbl (acc @ [e]) rows))"

text \<open>
  \<open>POST /api/team/import\<close>, for the bytes read from the upload; every exception of the
  body becomes a 400.
\<close>

definition import_body ::
  "(nat \<Rightarrow> pystr) \<Rightarrow> pystr \<Rightarrow> pystr \<Rightarrow> pybytes \<Rightarrow> world \<Rightarrow> (exn + dict) \<times> world" where
  "import_body tbl tn sp content w =
     (case utf8_decode content of
        None \<Rightarrow> (Inl UnicodeDecodeError, w)
      | Some txt \<Rightarrow>
         (case DictReader txt of
            (rows, err) \<Rightarrow>
              (case roster_loop tbl [] rows of
                 Inl e \<Rightarrow> (Inl e, w)
               | Inr r \<Rightarrow>
                  (case err of
                     Some e \<Rightarrow> (Inl e, w)
                   | None \<Rightarrow>
                      (case create_document ''team'' (MTeam (new_Team tn sp r)) w of
                         (Inl e, w') \<Rightarrow> (Inl e, w')
                       | (Inr new_id, w') \<Rightarrow>
                          (Inr [(''id'', PStr new_id), (''count'', PInt (int (length r)))],
                           w'))))))"

definition import_team ::
  "(nat \<Rightarrow> pystr) \<Rightarrow> pystr \<Rightarrow> pystr \<Rightarrow> pybytes \<Rightarrow> world \<Rightarrow> dict outcome \<times> world" where
  "import_team tbl tn sp content w =
     (case import_body tbl tn sp content w of
        (Inl e, w') \<Rightarrow> (HTTPException 400 (InvalidCSV e), w')
      | (Inr body, w') \<Rightarrow> (Returned body, w'))"

section \<open>Order endpoints\<close>

text \<open>\<open>POST /api/orders/{order_id}/status\<close>, whose answer is \<open>{"ok": True}\<close>.\<close>

definition ok_body :: dict where
  "ok_body = [(''ok'', PBool True)]"

definition update_status :: "pystr \<Rightarrow> pystr \<Rightarrow> world \<Rightarrow> dict outcome \<times> world" where
  "update_status order_id status w =
     (if \<not> is_valid order_id then (HTTPException 400 (Detail ''Invalid order id''), w)
      else (case ObjectId order_id of
              None \<Rightarrow> (HTTPException 500 (StrExn InvalidId), w)
            | Some oid \<Rightarrow>
               (case update_one_set ''jerseyorder'' oid ''status'' (PStr status) w of
                  (Inl e, w') \<Rightarrow> (HTTPException 500 (StrExn e), w')
                | (Inr _, w') \<Rightarrow> (Returned ok_body, w'))))"

text \<open>
  \<open>GET /api/orders/{order_id}\<close>. Nothing catches an exception of the lookup. The
  document found has the \<open>_id\<close> asked for, so \<open>str(doc.pop("_id"))\<close> is that
  identifier in hexadecimal.
\<close>

definition get_order :: "pystr \<Rightarrow> world \<Rightarrow> dict outcome \<times> world" where
  "get_order order_id w =
     (if \<not> is_valid order_id then (HTTPException 400 (Detail ''Invalid order id''), w)
      else (case ObjectId order_id of
              None \<Rightarrow> (Unhandled InvalidId, w)
            | Some oid \<Rightarrow>
               (case find_one_id ''jerseyorder'' oid w of
                  (Inl e, w') \<Rightarrow> (Unhandled e, w')
                | (Inr None, w') \<Rightarrow> (HTTPException 404 (Detail ''Not found''), w')
                | (Inr (Some doc), w') \<Rightarrow>
                   (if doc = [] then (HTTPException 404 (Detail ''Not found''), w')
                    else (Returned (dict_set ''id'' (PStr (str_ObjectId oid)) (dict_del ''_id'' doc)),
                          w')))))"

text \<open>The four order states of the schema, and the status the store holds for an order.\<close>

definition order_statuses :: "pystr list" where
  "order_statuses = [ustr ''Confirmed'', ustr ''In Production'', ustr ''QC'', ustr ''Shipped'']"

definition stored_status :: "pybytes \<Rightarrow> world \<Rightarrow> pyval option" where
  "stored_status oid w =
     (case db w of
        None \<Rightarrow> None
      | Some d \<Rightarrow>
         (case find (has_id oid) (colls d ''jerseyorder'') of
            None \<Rightarrow> None
          | Some doc \<Rightarrow> dict_get doc ''status''))"

section \<open>Example states\<close>

definition w_empty :: world where
  "w_empty = \<lparr>db = Some \<lparr>colls = (\<lambda>_. []), next_oid = 0, reachable = True\<rparr>, trace = []\<rparr>"

definition oid_a :: pybytes where
  "oid_a = [1, 35, 69, 103, 137, 171, 205, 239, 1, 35, 69, 103]"

definition order_a :: dict where
  "order_a = [(''_id'', PObjectId oid_a), (''customer_name'', PStr (ustr ''Asha'')),
              (''quantity'', PInt 15), (''pricing_tier'', PStr (ustr ''Pro'')),
              (''amount'', PFloat (Finite 13485)), (''payment_status'', PStr (ustr ''pending'')),
              (''status'', PStr (ustr ''Confirmed''))]"

definition d_one :: database where
  "d_one = \<lparr>colls = (\<lambda>_. [])(''jerseyorder'' := [order_a]), next_oid = 1, reachable = True\<rparr>"

definition w_one :: world where
  "w_one = \<lparr>db = Some d_one, trace = []\<rparr>"




definition tier_starter :: PricingTier where
  "tier_starter = \<lparr>tier_name = ustr ''Starter'', base_price = Finite 999, min_quantity = 1,
                   features = []\<rparr>"

definition tier_pro :: PricingTier where
  "tier_pro = \<lparr>tier_name = ustr ''Pro'', base_price = Finite 899, min_quantity = 10,
               features = []\<rparr>"

definition tier_elite :: PricingTier where
  "tier_elite = \<lparr>tier_name = ustr ''Elite'', base_price = Finite 799, min_quantity = 25,
                 features = []\<rparr>"

definition tiers_demo :: "(pybytes \<times> PricingTier) list" where
  "tiers_demo = [(oid_of_nat 0, tier_starter), (oid_of_nat 1, tier_pro), (oid_of_nat 2, tier_elite)]"

definition d_tiers :: database where
  "d_tiers = \<lparr>colls = (\<lambda>_. [])(''pricingtier'' := map (\<lambda>(i, t). stored_doc i (MTier t)) tiers_demo),
              next_oid = 3, reachable = True\<rparr>"

definition w_tiers :: world where
  "w_tiers = \<lparr>db = Some d_tiers, trace = []\<rparr>"

definition design_demo :: JerseyDesign where
  "design_demo = \<lparr>front_color = ustr ''#0A66C2'', back_color = ustr ''#0A66C2'',
                  accents = [ustr ''#FF6F00''], text_elements = [], logo_elements = []\<rparr>"

definition req_demo :: "int \<Rightarrow> CheckoutRequest" where
  "req_demo q = \<lparr>req_customer_name = ustr ''Asha'', req_customer_email = ustr ''asha@example.org'',
                 req_customer_phone = ustr ''5550100'', req_shipping_address = ustr ''12 Hill Road'',
                 req_team_id = None, req_template_id = None, req_design = design_demo,
                 req_quantity = q, req_method = ustr ''upi''\<rparr>"

definition t_demo :: JerseyTemplate where
  "t_demo = \<lparr>template_sport = cricket, template_name = ustr ''Classic'',
             colors = [ustr ''#0A66C2'', ustr ''#FF6F00''], preview_url = None,
             svg = Some (ustr ''<svg/>''), is_public = True\<rparr>"

definition w_down :: world where
  "w_down = \<lparr>db = None, trace = []\<rparr>"

definition w_unreachable :: world where
  "w_unreachable = \<lparr>db = Some \<lparr>colls = (\<lambda>_. []), next_oid = 0, reachable = False\<rparr>, trace = []\<rparr>"

definition no_table :: "nat \<Rightarrow> pystr" where
  "no_table c = [c]"

definition csv_one_player :: pybytes where
  "csv_one_player = ustr ''name,number,size'' @ [10] @ ustr ''Asha,7,m'' @ [10]"

definition csv_blank_fields :: pybytes where
  "csv_blank_fields = ustr ''name,number,size'' @ [10] @ ustr '' , , '' @ [10]"

definition csv_blank_line :: pybytes where
  "csv_blank_line = ustr ''name,number,size'' @ [10] @ ustr ''Asha,7,m'' @ [10, 10]
                      @ ustr ''Ravi,10,'' @ [10]"

definition csv_spaces_line :: pybytes where
  "csv_spaces_line = ustr ''name,number,size'' @ [10] @ ustr ''   '' @ [10]"

section \<open>Identifiers\<close>

lemma hexval_not_space: "Py_ISSPACE c \<Longrightarrow> hexval c = None"
  by (auto simp: Py_ISSPACE_def hexval_def)

lemma bytes_fromhex_hex:
  "list_all (\<lambda>c. hexval c \<noteq> None) s \<Longrightarrow> even (length s) \<Longrightarrow>
   \<exists>bs. bytes_fromhex s = Some bs \<and> 2 * length bs = length s"
proof (induction s rule: bytes_fromhex.induct)
  case 1
  then show ?case by simp
next
  case (2 c)
  then show ?case by simp
next
  case (3 c d ds)
  then have nsp: "\<not> Py_ISSPACE c" using hexval_not_space by auto
  from 3 obtain hi lo where h: "hexval c = Some hi" "hexval d = Some lo" by auto
  from 3 have "list_all (\<lambda>c. hexval c \<noteq> None) ds" "even (length ds)" by auto
  with 3(2)[OF nsp h(1) h(2)] obtain bs
    where "bytes_fromhex ds = Some bs" "2 * length bs = length ds"
    by blast
  then show ?case using nsp h by simp
qed

text \<open>Twenty-four hexadecimal digits are a valid identifier of twelve bytes.\<close>

lemma hex24_is_valid: "hex24 s \<Longrightarrow> is_valid s"
  using bytes_fromhex_hex[of s] by (auto simp: hex24_def is_valid_def ObjectId_def)

lemma hex24_ObjectId_12: "hex24 s \<Longrightarrow> \<exists>bs. ObjectId s = Some bs \<and> length bs = 12"
  using bytes_fromhex_hex[of s] by (auto simp: hex24_def ObjectId_def)

text \<open>A string of another length (too short, say) is not.\<close>

lemma not_24_invalid: "length s \<noteq> 24 \<Longrightarrow> \<not> is_valid s"
  by (simp add: is_valid_def ObjectId_def)

lemma ObjectId_example:
  "ObjectId (ustr ''0123456789abcdef01234567'') = Some oid_a"
  by (simp add: ObjectId_def ustr_def hexval_def Py_ISSPACE_def oid_a_def)

lemma ObjectId_example_other:
  "ObjectId (ustr ''ffffffffffffffffffffffff'')
     = Some [255, 255, 255, 255, 255, 255, 255, 255, 255, 255, 255, 255]"
  by (simp add: ObjectId_def ustr_def hexval_def Py_ISSPACE_def)

section \<open>Dictionaries and lists\<close>

lemma find_None_iff_ball: "find P xs = None \<longleftrightarrow> (\<forall>x\<in>set xs. \<not> P x)"
  by (induction xs) auto

lemma dict_get_dict_set:
  "dict_get (dict_set k v d) k' = (if k' = k then Some v else dict_get d k')"
  by (induction d) (auto simp: dict_get_def)

lemma dict_set_idem: "dict_set k v (dict_set k v d) = dict_set k v d"
  by (induction d) auto

lemma has_id_set_status: "has_id oid (dict_set ''status'' v doc) = has_id oid doc"
  by (simp add: has_id_def dict_get_dict_set)

lemma update_first_idem:
  "(\<And>x. P (f x) = P x) \<Longrightarrow> (\<And>x. f (f x) = f x) \<Longrightarrow>
   update_first P f (update_first P f xs) = update_first P f xs"
  by (induction xs) auto

lemma update_first_none: "\<forall>x\<in>set xs. \<not> P x \<Longrightarrow> update_first P f xs = xs"
  by (induction xs) auto

lemma find_update_first:
  "(\<And>x. P (f x) = P x) \<Longrightarrow> find P (update_first P f xs) = map_option f (find P xs)"
  by (induction xs) auto

section \<open>Order lookup and status update\<close>

lemma bytes_fromhex_bad_char:
  "\<exists>c\<in>set s. hexval c = None \<and> \<not> Py_ISSPACE c \<Longrightarrow> bytes_fromhex s = None"
proof (induction s rule: bytes_fromhex.induct)
  case 1
  then show ?case by simp
next
  case (2 c)
  then show ?case by auto
next
  case (3 c d ds)
  show ?case
  proof (cases "Py_ISSPACE c")
    case True
    with 3(3) have "\<exists>x\<in>set (d # ds). hexval x = None \<and> \<not> Py_ISSPACE x" by auto
    with 3(1)[OF True] True show ?thesis by simp
  next
    case False
    show ?thesis
    proof (cases "hexval c")
      case None
      with False show ?thesis by simp
    next
      case (Some hi)
      show ?thesis
      proof (cases "hexval d")
        case None
        with False Some show ?thesis by simp
      next
        case lo: (Some lo)
        with Some 3(3) have "\<exists>x\<in>set ds. hexval x = None \<and> \<not> Py_ISSPACE x" by auto
        with 3(2)[OF False Some lo] False Some lo show ?thesis by simp
      qed
    qed
  qed
qed

text \<open>
  A string with a character that is neither a hexadecimal digit nor ASCII whitespace is
  no identifier, whatever its length.
\<close>

lemma bad_char_invalid:
  "\<exists>c\<in>set s. hexval c = None \<and> \<not> Py_ISSPACE c \<Longrightarrow> \<not> is_valid s"
  by (simp add: is_valid_def ObjectId_def bytes_fromhex_bad_char)

text \<open>
  C4 as the claim states it fails: the string of 22 hexadecimal digits and two spaces
  is not an identifier of 24 hexadecimal digits, yet \<open>ObjectId.is_valid\<close> accepts it
  (\<open>bytes.fromhex\<close> passes over the spaces), the store is asked for the order, and the
  answer is the 404, not the 400.
\<close>

theorem get_order_padded_id_reaches_store:
  "\<not> hex24 (ustr ''0123456789abcdef012345  '')
   \<and> is_valid (ustr ''0123456789abcdef012345  '')
   \<and> fst (get_order (ustr ''0123456789abcdef012345  '') w_one)
        = HTTPException 404 (Detail ''Not found'')
   \<and> trace (snd (get_order (ustr ''0123456789abcdef012345  '') w_one))
        = [FindOne ''jerseyorder'']"
proof -
  have o: "ObjectId (ustr ''0123456789abcdef012345  '')
             = Some [1, 35, 69, 103, 137, 171, 205, 239, 1, 35, 69]"
    by (simp add: ObjectId_def ustr_def hexval_def Py_ISSPACE_def)
  have h: "\<not> hex24 (ustr ''0123456789abcdef012345  '')"
    by (simp add: hex24_def ustr_def hexval_def)
  have f: "find (has_id [1, 35, 69, 103, 137, 171, 205, 239, 1, 35, 69])
             (colls d_one ''jerseyorder'') = None"
    by (simp add: d_one_def order_a_def has_id_def dict_get_def oid_a_def)
  have g: "get_order (ustr ''0123456789abcdef012345  '') w_one
             = (HTTPException 404 (Detail ''Not found''),
                w_one\<lparr>trace := trace w_one @ [FindOne ''jerseyorder'']\<rparr>)"
    using o f by (simp add: get_order_def is_valid_def find_one_id_def w_one_def d_one_def)
  from o h g show ?thesis by (simp add: is_valid_def w_one_def)
qed

text \<open>
  C4, amended. \<open>GET /api/orders/{order_id}\<close> answers the 400 and leaves the world as
  it was (no operation is sent to the store, whatever its state) for every string
  \<open>ObjectId.is_valid\<close> refuses: every string that has not 24 characters and every
  string with a character that is neither a hexadecimal digit nor ASCII whitespace are
  among them. For every string it accepts (every string of 24 hexadecimal digits is
  among them), when the store answers and holds no order with that identifier, the one
  operation sent is the lookup and the answer is the 404 "Not found", the store unchanged.
\<close>

theorem get_order_refused_400_absent_404:
  "((length order_id \<noteq> 24 \<or> (\<exists>c\<in>set order_id. hexval c = None \<and> \<not> Py_ISSPACE c))
       \<longrightarrow> \<not> is_valid order_id)
   \<and> (\<not> is_valid order_id \<longrightarrow>
        get_order order_id w = (HTTPException 400 (Detail ''Invalid order id''), w))
   \<and> (hex24 order_id \<longrightarrow> is_valid order_id \<and> (\<exists>oid. ObjectId order_id = Some oid \<and> length oid = 12))
   \<and> (\<forall>oid d. ObjectId order_id = Some oid \<and> db w = Some d \<and> reachable d
          \<and> (\<forall>doc\<in>set (colls d ''jerseyorder''). \<not> has_id oid doc)
        \<longrightarrow> fst (get_order order_id w) = HTTPException 404 (Detail ''Not found'')
            \<and> status_code (fst (get_order order_id w)) = 404
            \<and> trace (snd (get_order order_id w)) = trace w @ [FindOne ''jerseyorder'']
            \<and> db (snd (get_order order_id w)) = db w)"
proof (intro conjI allI impI)
  assume "length order_id \<noteq> 24 \<or> (\<exists>c\<in>set order_id. hexval c = None \<and> \<not> Py_ISSPACE c)"
  then show "\<not> is_valid order_id"
    using not_24_invalid[of order_id] bad_char_invalid[of order_id] by blast
next
  assume "\<not> is_valid order_id"
  then show "get_order order_id w = (HTTPException 400 (Detail ''Invalid order id''), w)"
    by (simp add: get_order_def)
next
  assume "hex24 order_id"
  then show "is_valid order_id" by (rule hex24_is_valid)
next
  assume "hex24 order_id"
  then show "\<exists>oid. ObjectId order_id = Some oid \<and> length oid = 12" by (rule hex24_ObjectId_12)
next
  fix oid d
  assume a: "ObjectId order_id = Some oid \<and> db w = Some d \<and> reachable d
          \<and> (\<forall>doc\<in>set (colls d ''jerseyorder''). \<not> has_id oid doc)"
  then have f: "find (has_id oid) (colls d ''jerseyorder'') = None"
    by (simp add: find_None_iff_ball)
  from a f show "fst (get_order order_id w) = HTTPException 404 (Detail ''Not found'')"
    by (simp add: get_order_def is_valid_def find_one_id_def)
  from a f show "status_code (fst (get_order order_id w)) = 404"
    by (simp add: get_order_def is_valid_def find_one_id_def)
  from a f show "trace (snd (get_order order_id w)) = trace w @ [FindOne ''jerseyorder'']"
    by (simp add: get_order_def is_valid_def find_one_id_def)
  from a f show "db (snd (get_order order_id w)) = db w"
    by (simp add: get_order_def is_valid_def find_one_id_def)
qed

theorem get_order_refused_400_absent_404_witness:
  "length (ustr ''abc'') \<noteq> 24
   \<and> get_order (ustr ''abc'') w_one = (HTTPException 400 (Detail ''Invalid order id''), w_one)
   \<and> get_order (ustr ''0123456789abcdef0123456z'') w_one
        = (HTTPException 400 (Detail ''Invalid order id''), w_one)
   \<and> hex24 (ustr ''ffffffffffffffffffffffff'')
   \<and> fst (get_order (ustr ''ffffffffffffffffffffffff'') w_one)
       = HTTPException 404 (Detail ''Not found'')
   \<and> trace (snd (get_order (ustr ''ffffffffffffffffffffffff'') w_one))
       = trace w_one @ [FindOne ''jerseyorder'']"
proof -
  have 1: "length (ustr ''abc'') \<noteq> 24"
    by (simp add: ustr_def)
  have 2: "\<exists>c\<in>set (ustr ''0123456789abcdef0123456z''). hexval c = None \<and> \<not> Py_ISSPACE c"
    by (simp add: ustr_def hexval_def Py_ISSPACE_def)
  have 3: "db w_one = Some d_one" "reachable d_one"
    by (simp_all add: w_one_def d_one_def)
  have 4: "\<forall>doc\<in>set (colls d_one ''jerseyorder'').
             \<not> has_id [255, 255, 255, 255, 255, 255, 255, 255, 255, 255, 255, 255] doc"
    by (simp add: d_one_def order_a_def has_id_def dict_get_def oid_a_def)
  have 5: "hex24 (ustr ''ffffffffffffffffffffffff'')"
    by (simp add: hex24_def ustr_def hexval_def)
  from get_order_refused_400_absent_404[of "ustr ''abc''" w_one] 1
  have a: "get_order (ustr ''abc'') w_one
             = (HTTPException 400 (Detail ''Invalid order id''), w_one)"
    by blast
  from get_order_refused_400_absent_404[of "ustr ''0123456789abcdef0123456z''" w_one] 2
  have b: "get_order (ustr ''0123456789abcdef0123456z'') w_one
             = (HTTPException 400 (Detail ''Invalid order id''), w_one)"
    by blast
  from get_order_refused_400_absent_404[of "ustr ''ffffffffffffffffffffffff''" w_one]
    ObjectId_example_other 3 4
  have c: "fst (get_order (ustr ''ffffffffffffffffffffffff'') w_one)
             = HTTPException 404 (Detail ''Not found'')
         \<and> trace (snd (get_order (ustr ''ffffffffffffffffffffffff'') w_one))
             = trace w_one @ [FindOne ''jerseyorder'']"
    by blast
  from 1 a b c 5 show ?thesis by simp
qed

lemma update_status_run:
  assumes "ObjectId order_id = Some oid" "db w = Some d" "reachable d"
  shows "update_status order_id status w =
     (Returned ok_body,
      w\<lparr>db := Some (d\<lparr>colls := (colls d)(''jerseyorder'' :=
              update_first (has_id oid) (dict_set ''status'' (PStr status))
                (colls d ''jerseyorder''))\<rparr>),
        trace := trace w @ [UpdateOne ''jerseyorder'']\<rparr>)"
  using assms by (simp add: update_status_def is_valid_def update_one_set_def)

text \<open>
  C9. \<open>POST /api/orders/{order_id}/status\<close> with one of the four status strings, for an
  order the (reachable) store holds: the call answers \<open>{"ok": True}\<close>, the same call
  again answers \<open>{"ok": True}\<close> again, the stored status is the one sent after the
  first call and after the second, and the second call leaves the store as the first
  left it.
\<close>

theorem update_status_idempotent:
  assumes "status \<in> set order_statuses"
    and "ObjectId order_id = Some oid" and "db w = Some d" and "reachable d"
    and "\<exists>doc\<in>set (colls d ''jerseyorder''). has_id oid doc"
  shows "fst (update_status order_id status w) = Returned ok_body
       \<and> fst (update_status order_id status (snd (update_status order_id status w)))
           = Returned ok_body
       \<and> stored_status oid (snd (update_status order_id status w)) = Some (PStr status)
       \<and> stored_status oid
            (snd (update_status order_id status (snd (update_status order_id status w))))
           = stored_status oid (snd (update_status order_id status w))
       \<and> db (snd (update_status order_id status (snd (update_status order_id status w))))
           = db (snd (update_status order_id status w))"
proof -
  let ?f = "dict_set ''status'' (PStr status)"
  let ?os = "update_first (has_id oid) ?f (colls d ''jerseyorder'')"
  let ?d1 = "d\<lparr>colls := (colls d)(''jerseyorder'' := ?os)\<rparr>"
  let ?w1 = "w\<lparr>db := Some ?d1, trace := trace w @ [UpdateOne ''jerseyorder'']\<rparr>"
  have r1: "update_status order_id status w = (Returned ok_body, ?w1)"
    using assms(2-4) by (rule update_status_run)
  have idem: "update_first (has_id oid) ?f ?os = ?os"
    by (rule update_first_idem) (simp_all add: has_id_set_status dict_set_idem)
  have r2: "update_status order_id status ?w1 =
      (Returned ok_body, ?w1\<lparr>trace := trace ?w1 @ [UpdateOne ''jerseyorder'']\<rparr>)"
    using update_status_run[OF assms(2), of ?w1 ?d1 status] assms(4) idem by simp
  from assms(5) obtain doc where doc: "find (has_id oid) (colls d ''jerseyorder'') = Some doc"
    by (cases "find (has_id oid) (colls d ''jerseyorder'')") (auto simp: find_None_iff_ball)
  have f1: "find (has_id oid) ?os = Some (?f doc)"
    using doc by (simp add: find_update_first has_id_set_status)
  have s1: "stored_status oid ?w1 = Some (PStr status)"
    using f1 by (simp add: stored_status_def dict_get_dict_set)
  show ?thesis
    using r1 r2 s1 by (simp add: stored_status_def)
qed

theorem update_status_idempotent_witness:
  "ustr ''Shipped'' \<in> set order_statuses
   \<and> fst (update_status (ustr ''0123456789abcdef01234567'') (ustr ''Shipped'') w_one)
        = Returned ok_body
   \<and> fst (update_status (ustr ''0123456789abcdef01234567'') (ustr ''Shipped'')
             (snd (update_status (ustr ''0123456789abcdef01234567'') (ustr ''Shipped'') w_one)))
        = Returned ok_body
   \<and> stored_status oid_a
        (snd (update_status (ustr ''0123456789abcdef01234567'') (ustr ''Shipped'') w_one))
        = Some (PStr (ustr ''Shipped''))
   \<and> stored_status oid_a w_one = Some (PStr (ustr ''Confirmed''))"
proof -
  have 1: "ustr ''Shipped'' \<in> set order_statuses"
    by (simp add: order_statuses_def ustr_def)
  have 3: "db w_one = Some d_one" "reachable d_one"
    by (simp_all add: w_one_def d_one_def)
  have 4: "\<exists>doc\<in>set (colls d_one ''jerseyorder''). has_id oid_a doc"
    by (simp add: d_one_def order_a_def has_id_def dict_get_def)
  have 5: "stored_status oid_a w_one = Some (PStr (ustr ''Confirmed''))"
    by (simp add: stored_status_def w_one_def d_one_def order_a_def has_id_def dict_get_def)
  from update_status_idempotent[OF 1 ObjectId_example 3 4] 1 5
  show ?thesis by simp
qed

text \<open>
  C10. \<open>POST /api/orders/{order_id}/status\<close> checks neither the status nor that the
  order exists: for every status string and every valid identifier, when the store
  answers, the call answers \<open>{"ok": True}\<close>; an order with that identifier gets the
  status sent, whatever the string; and when no stored order has the identifier, the
  store is left unchanged.
\<close>

theorem update_status_unchecked:
  assumes "ObjectId order_id = Some oid" and "db w = Some d" and "reachable d"
  shows "fst (update_status order_id status w) = Returned ok_body
       \<and> status_code (fst (update_status order_id status w)) = 200
       \<and> ((\<exists>doc\<in>set (colls d ''jerseyorder''). has_id oid doc)
            \<longrightarrow> stored_status oid (snd (update_status order_id status w)) = Some (PStr status))
       \<and> ((\<forall>doc\<in>set (colls d ''jerseyorder''). \<not> has_id oid doc)
            \<longrightarrow> db (snd (update_status order_id status w)) = db w)"
proof -
  let ?f = "dict_set ''status'' (PStr status)"
  let ?os = "update_first (has_id oid) ?f (colls d ''jerseyorder'')"
  note r1 = update_status_run[OF assms, of status]
  have a: "fst (update_status order_id status w) = Returned ok_body"
    using r1 by simp
  have b: "stored_status oid (snd (update_status order_id status w)) = Some (PStr status)"
    if "\<exists>doc\<in>set (colls d ''jerseyorder''). has_id oid doc"
  proof -
    from that obtain doc where doc: "find (has_id oid) (colls d ''jerseyorder'') = Some doc"
      by (cases "find (has_id oid) (colls d ''jerseyorder'')") (auto simp: find_None_iff_ball)
    then have "find (has_id oid) ?os = Some (?f doc)"
      by (simp add: find_update_first has_id_set_status)
    then show ?thesis using r1 by (simp add: stored_status_def dict_get_dict_set)
  qed
  have c: "db (snd (update_status order_id status w)) = db w"
    if "\<forall>doc\<in>set (colls d ''jerseyorder''). \<not> has_id oid doc"
  proof -
    from that have "?os = colls d ''jerseyorder''" by (rule update_first_none)
    then show ?thesis using r1 assms(2) by simp
  qed
  from a b c show ?thesis by simp
qed

theorem update_status_unchecked_witness:
  "ustr ''Refunded'' \<notin> set order_statuses
   \<and> fst (update_status (ustr ''0123456789abcdef01234567'') (ustr ''Refunded'') w_one)
        = Returned ok_body
   \<and> stored_status oid_a
        (snd (update_status (ustr ''0123456789abcdef01234567'') (ustr ''Refunded'') w_one))
        = Some (PStr (ustr ''Refunded''))
   \<and> fst (update_status (ustr ''ffffffffffffffffffffffff'') (ustr ''Refunded'') w_one)
        = Returned ok_body
   \<and> db (snd (update_status (ustr ''ffffffffffffffffffffffff'') (ustr ''Refunded'') w_one))
        = db w_one"
proof -
  have 1: "ustr ''Refunded'' \<notin> set order_statuses"
    by (simp add: order_statuses_def ustr_def)
  have 3: "db w_one = Some d_one" "reachable d_one"
    by (simp_all add: w_one_def d_one_def)
  have 4: "\<exists>doc\<in>set (colls d_one ''jerseyorder''). has_id oid_a doc"
    by (simp add: d_one_def order_a_def has_id_def dict_get_def)
  have 5: "\<forall>doc\<in>set (colls d_one ''jerseyorder'').
             \<not> has_id [255, 255, 255, 255, 255, 255, 255, 255, 255, 255, 255, 255] doc"
    by (simp add: d_one_def order_a_def has_id_def dict_get_def oid_a_def)
  from update_status_unchecked[OF ObjectId_example 3, of "ustr ''Refunded''"] 4
  have a: "fst (update_status (ustr ''0123456789abcdef01234567'') (ustr ''Refunded'') w_one)
             = Returned ok_body
         \<and> stored_status oid_a
             (snd (update_status (ustr ''0123456789abcdef01234567'') (ustr ''Refunded'') w_one))
             = Some (PStr (ustr ''Refunded''))"
    by blast
  from update_status_unchecked[OF ObjectId_example_other 3, of "ustr ''Refunded''"] 5
  have b: "fst (update_status (ustr ''ffffffffffffffffffffffff'') (ustr ''Refunded'') w_one)
             = Returned ok_body
         \<and> db (snd (update_status (ustr ''ffffffffffffffffffffffff'') (ustr ''Refunded'') w_one))
             = db w_one"
    by blast
  from 1 a b show ?thesis by simp
qed

section \<open>Tier selection\<close>

lemma sort_key_hd_min:
  "sort_key f xs = y # ys \<Longrightarrow> x \<in> set xs \<Longrightarrow> f y \<le> f x"
proof -
  assume a: "sort_key f xs = y # ys" and b: "x \<in> set xs"
  have "sorted (map f (sort_key f xs))" by (rule sorted_sort_key)
  with a have "\<forall>z\<in>set ys. f y \<le> f z" by simp
  moreover have "set (sort_key f xs) = set xs" by simp
  ultimately show ?thesis using a b by (metis order_refl set_ConsD)
qed

lemma sort_key_Nil_iff: "sort_key f xs = [] \<longleftrightarrow> xs = []"
  by (metis length_sort list.size(3) length_0_conv)

lemma first_lte_desc_None:
  "first_lte_desc key q docs = None \<longleftrightarrow> (\<forall>doc\<in>set docs. \<not> matches_lte key q doc)"
proof -
  have "first_lte_desc key q docs = None
           \<longleftrightarrow> sort_desc key (filter (matches_lte key q) docs) = []"
    by (simp add: first_lte_desc_def split: list.splits)
  also have "\<dots> \<longleftrightarrow> filter (matches_lte key q) docs = []"
    unfolding sort_desc_def by (rule sort_key_Nil_iff)
  finally show ?thesis by (simp add: filter_empty_conv)
qed

lemma first_lte_desc_Some:
  assumes "first_lte_desc key q docs = Some t"
  shows "t \<in> set docs \<and> (\<exists>n. int_field key t = Some n \<and> n \<le> q
           \<and> (\<forall>doc\<in>set docs. \<forall>m. int_field key doc = Some m \<and> m \<le> q \<longrightarrow> m \<le> n))"
proof -
  let ?f = "\<lambda>doc. - (case int_field key doc of Some n \<Rightarrow> n | None \<Rightarrow> 0)"
  let ?c = "filter (matches_lte key q) docs"
  from assms obtain ys where s: "sort_key ?f ?c = t # ys"
    by (auto simp: first_lte_desc_def sort_desc_def split: list.splits)
  then have "t \<in> set (sort_key ?f ?c)" by simp
  then have tin: "t \<in> set docs" and tm: "matches_lte key q t" by auto
  from tm obtain n where n: "int_field key t = Some n" "n \<le> q"
    by (auto simp: matches_lte_def split: option.splits)
  have "m \<le> n" if "doc \<in> set docs" "int_field key doc = Some m" "m \<le> q" for doc m
  proof -
    from that have "doc \<in> set ?c" by (simp add: matches_lte_def)
    from sort_key_hd_min[OF s this] show ?thesis using n that by simp
  qed
  with tin n show ?thesis by blast
qed

lemma stored_tier_fields:
  "int_field ''min_quantity'' (stored_doc i (MTier t)) = Some (min_quantity t)"
  "tier_pricing_name (Some (stored_doc i (MTier t))) = PStr (tier_name t)"
  "tier_base_price (Some (stored_doc i (MTier t))) = Inr (base_price t)"
  by (simp_all add: stored_doc_def dump_PricingTier_def dict_del_def int_field_def dict_get_def
        tier_pricing_name_def tier_base_price_def)

section \<open>Amounts\<close>







lemma create_document_run:
  assumes "db w = Some d" "reachable d"
  shows "create_document coll m w =
     (Inr (str_ObjectId (oid_of_nat (next_oid d))),
      w\<lparr>db := Some (d\<lparr>colls := (colls d)(coll := colls d coll
                          @ [stored_doc (oid_of_nat (next_oid d)) m]),
                      next_oid := next_oid d + 1\<rparr>),
        trace := trace w @ [InsertOne coll]\<rparr>)"
  using assms by (simp add: create_document_def Let_def)


lemma tier_docs_demo:
  "colls d_tiers ''pricingtier'' = map (\<lambda>(i, t). stored_doc i (MTier t)) tiers_demo"
  by (simp add: d_tiers_def)


lemma first_demo_0:
  "first_lte_desc ''min_quantity'' 0 (colls d_tiers ''pricingtier'') = None"
  by (simp add: d_tiers_def tiers_demo_def first_lte_desc_def sort_desc_def matches_lte_def
        stored_tier_fields tier_starter_def tier_pro_def tier_elite_def)



lemma amount_999_0: "compute_amount (Finite 999) 0 = Inr (Finite 0)"
  by code_simp




lemma find_one_lte_desc_db: "find_one_lte_desc c k q w = (r, w1) \<Longrightarrow> db w1 = db w"
  by (auto simp: find_one_lte_desc_def split: option.splits if_splits)


section \<open>Checkout\<close>

text \<open>
  C1. The pricing of \<open>checkout\<close> (the \<open>find_one\<close> on the tier table, the name and the
  base price read from what it finds), for every quantity \<open>q\<close> and every table of
  stored tiers in a store that answers: when some stored tier has \<open>min_quantity\<close> at
  most \<open>q\<close>, the tier taken is one of them whose \<open>min_quantity\<close> is the greatest among
  them, and its name and base price are the ones used; when none has (an empty table
  among the cases), the name is \<open>"Starter"\<close> and the base price 999.0.
\<close>

theorem resolve_best_tier:
  assumes "db w = Some d" and "reachable d"
    and "colls d ''pricingtier'' = map (\<lambda>(i, t). stored_doc i (MTier t)) its"
  shows "\<exists>tier_doc w1.
      find_one_lte_desc ''pricingtier'' ''min_quantity'' q w = (Inr tier_doc, w1)
    \<and> (if \<exists>t\<in>set (map snd its). min_quantity t \<le> q
       then \<exists>t\<in>set (map snd its). min_quantity t \<le> q
              \<and> (\<forall>t'\<in>set (map snd its). min_quantity t' \<le> q \<longrightarrow> min_quantity t' \<le> min_quantity t)
              \<and> tier_pricing_name tier_doc = PStr (tier_name t)
              \<and> tier_base_price tier_doc = Inr (base_price t)
       else tier_pricing_name tier_doc = PStr (ustr ''Starter'')
              \<and> tier_base_price tier_doc = Inr (Finite 999))"
proof -
  let ?docs = "colls d ''pricingtier''"
  let ?r = "first_lte_desc ''min_quantity'' q ?docs"
  have f: "find_one_lte_desc ''pricingtier'' ''min_quantity'' q w
             = (Inr ?r, w\<lparr>trace := trace w @ [FindOne ''pricingtier'']\<rparr>)"
    using assms(1,2) by (simp add: find_one_lte_desc_def)
  have m: "matches_lte ''min_quantity'' q (stored_doc i (MTier t)) \<longleftrightarrow> min_quantity t \<le> q" for i t
    by (simp add: matches_lte_def stored_tier_fields)
  show ?thesis
  proof (cases "\<exists>t\<in>set (map snd its). min_quantity t \<le> q")
    case False
    then have "\<forall>doc\<in>set ?docs. \<not> matches_lte ''min_quantity'' q doc"
      using assms(3) m by force
    then have "?r = None" by (simp add: first_lte_desc_None)
    with f False show ?thesis
      by (simp add: tier_pricing_name_def tier_base_price_def)
  next
    case True
    then have "\<exists>doc\<in>set ?docs. matches_lte ''min_quantity'' q doc"
      using assms(3) m by force
    then obtain doc where r: "?r = Some doc"
      using first_lte_desc_None[of "''min_quantity''" q ?docs] by (cases ?r) auto
    from first_lte_desc_Some[OF r] obtain n where
      din: "doc \<in> set ?docs" and n: "int_field ''min_quantity'' doc = Some n" "n \<le> q"
      and mx: "\<forall>x\<in>set ?docs. \<forall>k. int_field ''min_quantity'' x = Some k \<and> k \<le> q \<longrightarrow> k \<le> n"
      by blast
    from din assms(3) obtain i t where it: "(i, t) \<in> set its" "doc = stored_doc i (MTier t)"
      by auto
    from n it have tn: "min_quantity t = n" by (simp add: stored_tier_fields)
    have "min_quantity t' \<le> min_quantity t" if "t' \<in> set (map snd its)" "min_quantity t' \<le> q" for t'
    proof -
      from that(1) obtain i' where "(i', t') \<in> set its" by auto
      then have "stored_doc i' (MTier t') \<in> set ?docs" using assms(3) by force
      with mx that(2) tn show ?thesis by (simp add: stored_tier_fields)
    qed
    moreover have "t \<in> set (map snd its)" using it(1) by force
    ultimately show ?thesis using f r True it(2) tn n(2)
      by (auto simp: stored_tier_fields)
  qed
qed

theorem resolve_best_tier_witness:
  "(\<exists>tier_doc w1.
      find_one_lte_desc ''pricingtier'' ''min_quantity'' 15 w_tiers = (Inr tier_doc, w1)
    \<and> tier_pricing_name tier_doc = PStr (ustr ''Pro'')
    \<and> tier_base_price tier_doc = Inr (Finite 899))
   \<and> (\<exists>tier_doc w1.
      find_one_lte_desc ''pricingtier'' ''min_quantity'' 0 w_tiers = (Inr tier_doc, w1)
    \<and> tier_pricing_name tier_doc = PStr (ustr ''Starter'')
    \<and> tier_base_price tier_doc = Inr (Finite 999))"
proof -
  have 1: "db w_tiers = Some d_tiers" "reachable d_tiers"
    by (simp_all add: w_tiers_def d_tiers_def)
  have s: "set (map snd tiers_demo) = {tier_starter, tier_pro, tier_elite}"
    by (auto simp: tiers_demo_def)
  have q: "min_quantity tier_starter = 1" "min_quantity tier_pro = 10" "min_quantity tier_elite = 25"
    by (simp_all add: tier_starter_def tier_pro_def tier_elite_def)
  from resolve_best_tier[OF 1 tier_docs_demo, of 15] obtain tier_doc w1 where
    f: "find_one_lte_desc ''pricingtier'' ''min_quantity'' 15 w_tiers = (Inr tier_doc, w1)"
    and c: "if \<exists>t\<in>set (map snd tiers_demo). min_quantity t \<le> 15
       then \<exists>t\<in>set (map snd tiers_demo). min_quantity t \<le> 15
              \<and> (\<forall>t'\<in>set (map snd tiers_demo). min_quantity t' \<le> 15 \<longrightarrow> min_quantity t' \<le> min_quantity t)
              \<and> tier_pricing_name tier_doc = PStr (tier_name t)
              \<and> tier_base_price tier_doc = Inr (base_price t)
       else tier_pricing_name tier_doc = PStr (ustr ''Starter'')
              \<and> tier_base_price tier_doc = Inr (Finite 999)"
    by blast
  have "\<exists>t\<in>set (map snd tiers_demo). min_quantity t \<le> 15"
    unfolding s using q by simp
  with c obtain t where t: "t \<in> {tier_starter, tier_pro, tier_elite}" "min_quantity t \<le> 15"
    "\<forall>t'\<in>{tier_starter, tier_pro, tier_elite}. min_quantity t' \<le> 15 \<longrightarrow> min_quantity t' \<le> min_quantity t"
    "tier_pricing_name tier_doc = PStr (tier_name t)" "tier_base_price tier_doc = Inr (base_price t)"
    unfolding s by auto
  from t(1,2,3) q have "t = tier_pro" by auto
  with t(4,5) have a: "tier_pricing_name tier_doc = PStr (ustr ''Pro'')"
    "tier_base_price tier_doc = Inr (Finite 899)"
    by (simp_all add: tier_pro_def)
  from resolve_best_tier[OF 1 tier_docs_demo, of 0] obtain tier_doc0 w0 where
    f0: "find_one_lte_desc ''pricingtier'' ''min_quantity'' 0 w_tiers = (Inr tier_doc0, w0)"
    and c0: "if \<exists>t\<in>set (map snd tiers_demo). min_quantity t \<le> 0
       then \<exists>t\<in>set (map snd tiers_demo). min_quantity t \<le> 0
              \<and> (\<forall>t'\<in>set (map snd tiers_demo). min_quantity t' \<le> 0 \<longrightarrow> min_quantity t' \<le> min_quantity t)
              \<and> tier_pricing_name tier_doc0 = PStr (tier_name t)
              \<and> tier_base_price tier_doc0 = Inr (base_price t)
       else tier_pricing_name tier_doc0 = PStr (ustr ''Starter'')
              \<and> tier_base_price tier_doc0 = Inr (Finite 999)"
    by blast
  have "\<not> (\<exists>t\<in>set (map snd tiers_demo). min_quantity t \<le> 0)"
    unfolding s using q by simp
  with c0 have b: "tier_pricing_name tier_doc0 = PStr (ustr ''Starter'')"
    "tier_base_price tier_doc0 = Inr (Finite 999)"
    by simp_all
  from f a f0 b show ?thesis by blast
qed





lemma checkout_demo_0:
  "checkout (req_demo 0) w_tiers
     = (HTTPException 500 (StrExn ValidationError),
        w_tiers\<lparr>trace := [FindOne ''pricingtier'']\<rparr>)"
proof -
  have q: "req_quantity (req_demo 0) = 0" by (simp add: req_demo_def)
  have f: "find_one_lte_desc ''pricingtier'' ''min_quantity'' (req_quantity (req_demo 0)) w_tiers
             = (Inr None, w_tiers\<lparr>trace := [FindOne ''pricingtier'']\<rparr>)"
    using first_demo_0 by (simp add: q find_one_lte_desc_def w_tiers_def d_tiers_def)
  have n: "new_JerseyOrder (req_demo 0) t a = Inl ValidationError" for t a
    by (simp add: new_JerseyOrder_def q)
  have "checkout_body (req_demo 0) w_tiers
          = (Inl ValidationError, w_tiers\<lparr>trace := [FindOne ''pricingtier'']\<rparr>)"
    unfolding checkout_body_def f
    using amount_999_0 by (simp add: q n tier_base_price_def bind_exn_def)
  then show ?thesis by (simp add: checkout_def)
qed

text \<open>
  C7: what the code does. A checkout whose quantity is below 1 passes the request model
  (\<open>CheckoutRequest.quantity\<close> has no bound) and fails in the handler, where
  \<open>JerseyOrder\<close> refuses it; the handler turns every exception into a 500. Nothing is
  written to the store. The answer is a 500, not the 400 of the claim.
\<close>

theorem checkout_quantity_below_one:
  assumes "req_quantity req < 1"
  shows "(\<exists>e. fst (checkout req w) = HTTPException 500 (StrExn e))
       \<and> status_code (fst (checkout req w)) = 500
       \<and> db (snd (checkout req w)) = db w"
proof -
  obtain r w1 where f:
    "find_one_lte_desc ''pricingtier'' ''min_quantity'' (req_quantity req) w = (r, w1)"
    by (cases "find_one_lte_desc ''pricingtier'' ''min_quantity'' (req_quantity req) w")
  have n: "new_JerseyOrder req t a = Inl ValidationError" for t a
    using assms by (simp add: new_JerseyOrder_def)
  have b: "\<exists>e. checkout_body req w = (Inl e, w1)"
    unfolding checkout_body_def f by (simp add: n split: sum.splits)
  then obtain e where e: "checkout_body req w = (Inl e, w1)" by blast
  then have "fst (checkout req w) = HTTPException 500 (StrExn e)"
    by (simp add: checkout_def)
  moreover have "db (snd (checkout req w)) = db w"
    using e find_one_lte_desc_db[OF f] by (simp add: checkout_def)
  ultimately show ?thesis by simp
qed

theorem checkout_quantity_below_one_witness:
  "req_quantity (req_demo 0) < 1
   \<and> fst (checkout (req_demo 0) w_tiers) = HTTPException 500 (StrExn ValidationError)
   \<and> status_code (fst (checkout (req_demo 0) w_tiers)) = 500
   \<and> db (snd (checkout (req_demo 0) w_tiers)) = db w_tiers"
proof -
  have 1: "req_quantity (req_demo 0) < 1" by (simp add: req_demo_def)
  from checkout_quantity_below_one[OF 1, of w_tiers] 1 checkout_demo_0
  show ?thesis by simp
qed

section \<open>Templates\<close>

lemma sport_of_str_of_sport: "sport_of_str (str_of_sport x) = Some x"
  by (cases x) (simp_all add: sport_of_str_def ustr_def)

lemma as_str_list_map: "as_str_list (map PStr cs) = Inr cs"
  by (induction cs) (simp_all add: bind_exn_def)

lemma as_opt_str_dump: "as_opt_str (Some (dump_opt x)) = Inr x"
  by (cases x) (simp_all add: as_opt_str_def dump_opt_def)

lemma stored_template: "stored_doc i (MTemplate t) = (''_id'', PObjectId i) # dump_JerseyTemplate t"
  by (simp add: stored_doc_def dict_del_def dump_JerseyTemplate_def)

text \<open>Reading back what \<open>model_dump\<close> wrote gives the template, whatever the \<open>_id\<close>.\<close>

lemma new_JerseyTemplate_dump:
  "new_JerseyTemplate (filter (\<lambda>(k, v). k \<noteq> ''_id'') (stored_doc i (MTemplate t))) = Inr t"
  by (simp add: stored_template new_JerseyTemplate_def dump_JerseyTemplate_def field_sport_def
        field_str_def field_colors_def field_is_public_def dict_get_def bind_exn_def
        sport_of_str_of_sport as_str_list_map as_opt_str_dump)

lemma new_JerseyTemplate_of_dump: "new_JerseyTemplate (dump_JerseyTemplate t) = Inr t"
  by (simp add: new_JerseyTemplate_def dump_JerseyTemplate_def field_sport_def
        field_str_def field_colors_def field_is_public_def dict_get_def bind_exn_def
        sport_of_str_of_sport as_str_list_map as_opt_str_dump)

lemma validate_all_append:
  "validate_all (xs @ ys) =
     bind_exn (validate_all xs) (\<lambda>a. bind_exn (validate_all ys) (\<lambda>b. Inr (a @ b)))"
  by (induction xs) (auto simp: bind_exn_def split: sum.splits)

lemma dump_JerseyTemplate_keys:
  "map fst (dump_JerseyTemplate t)
     = [''sport'', ''name'', ''colors'', ''preview_url'', ''svg'', ''is_public'']"
  by (simp add: dump_JerseyTemplate_def)

lemma str_oid_0: "str_ObjectId (oid_of_nat 0) = ustr ''000000000000000000000000''"
  by (simp add: str_ObjectId_def oid_of_nat_def hexdigit_def ustr_def upt_rec)

lemma create_template_run:
  assumes "db w = Some d" "reachable d"
  shows "create_template t w =
     (Returned [(''id'', PStr (str_ObjectId (oid_of_nat (next_oid d))))],
      w\<lparr>db := Some (d\<lparr>colls := (colls d)(''jerseytemplate'' := colls d ''jerseytemplate''
                          @ [stored_doc (oid_of_nat (next_oid d)) (MTemplate t)]),
                      next_oid := next_oid d + 1\<rparr>),
        trace := trace w @ [InsertOne ''jerseytemplate'']\<rparr>)"
  using create_document_run[OF assms, of "''jerseytemplate''" "MTemplate t"]
  by (simp add: create_template_def)

text \<open>
  C3 as the claim states it fails: after the template \<open>t_demo\<close> is created in an empty
  store (\<open>POST\<close> answers with the identifier), \<open>GET /api/templates\<close> lists the template
  with its six fields and nothing else: no item of the response has an \<open>id\<close> field, and
  the identifier is no value of it.
\<close>

theorem list_templates_has_no_id:
  "fst (create_template t_demo w_empty)
     = Returned [(''id'', PStr (ustr ''000000000000000000000000''))]
   \<and> fst (list_templates (snd (create_template t_demo w_empty))) = Returned [t_demo]
   \<and> templates_json [t_demo]
       = [[(''sport'', PStr (ustr ''cricket'')), (''name'', PStr (ustr ''Classic'')),
           (''colors'', PList [PStr (ustr ''#0A66C2''), PStr (ustr ''#FF6F00'')]),
           (''preview_url'', PNone), (''svg'', PStr (ustr ''<svg/>'')),
           (''is_public'', PBool True)]]
   \<and> dict_get (hd (templates_json [t_demo])) ''id'' = None
   \<and> PStr (ustr ''000000000000000000000000'') \<notin> snd ` set (hd (templates_json [t_demo]))"
proof -
  have 1: "db w_empty = Some \<lparr>colls = (\<lambda>_. []), next_oid = 0, reachable = True\<rparr>"
    "reachable \<lparr>colls = (\<lambda>_. []), next_oid = 0, reachable = True\<rparr>"
    by (simp_all add: w_empty_def)
  have c: "create_template t_demo w_empty
     = (Returned [(''id'', PStr (ustr ''000000000000000000000000''))],
        w_empty\<lparr>db := Some \<lparr>colls = (\<lambda>_. [])(''jerseytemplate'' :=
                     [stored_doc (oid_of_nat 0) (MTemplate t_demo)]),
                   next_oid = 1, reachable = True\<rparr>,
                trace := [InsertOne ''jerseytemplate'']\<rparr>)"
    using create_template_run[OF 1, of t_demo] by (simp add: str_oid_0 w_empty_def)
  have l: "fst (list_templates (snd (create_template t_demo w_empty))) = Returned [t_demo]"
    unfolding c using new_JerseyTemplate_dump[of "oid_of_nat 0" t_demo]
    by (simp add: list_templates_def get_documents_def bind_exn_def)
  have j: "templates_json [t_demo]
       = [[(''sport'', PStr (ustr ''cricket'')), (''name'', PStr (ustr ''Classic'')),
           (''colors'', PList [PStr (ustr ''#0A66C2''), PStr (ustr ''#FF6F00'')]),
           (''preview_url'', PNone), (''svg'', PStr (ustr ''<svg/>'')),
           (''is_public'', PBool True)]]"
    by (simp add: templates_json_def dump_JerseyTemplate_def t_demo_def dump_opt_def)
  have k: "dict_get (hd (templates_json [t_demo])) ''id'' = None"
    by (simp add: j dict_get_def)
  have v: "PStr (ustr ''000000000000000000000000'') \<notin> snd ` set (hd (templates_json [t_demo]))"
    by (simp add: j ustr_def)
  from c l j k v show ?thesis by simp
qed

text \<open>
  C3, amended. For every template \<open>t\<close> and every store that answers and whose template
  collection reads back as the templates \<open>ts\<close>: \<open>POST /api/templates\<close> answers with
  the new identifier as \<open>id\<close>, and \<open>GET /api/templates\<close> then lists \<open>ts\<close> followed by
  \<open>t\<close>, every field as it was sent; each item of the response has the six fields of the
  schema and no other (no \<open>id\<close>, no \<open>_id\<close>).
\<close>

theorem create_then_list_templates:
  assumes "db w = Some d" and "reachable d"
    and "validate_all (colls d ''jerseytemplate'') = Inr ts"
  shows "fst (create_template t w)
           = Returned [(''id'', PStr (str_ObjectId (oid_of_nat (next_oid d))))]
       \<and> fst (list_templates (snd (create_template t w))) = Returned (ts @ [t])
       \<and> templates_json (ts @ [t]) = templates_json ts @ [dump_JerseyTemplate t]
       \<and> new_JerseyTemplate (dump_JerseyTemplate t) = Inr t
       \<and> (\<forall>item\<in>set (templates_json (ts @ [t])).
             map fst item = [''sport'', ''name'', ''colors'', ''preview_url'', ''svg'', ''is_public''])"
proof -
  let ?oid = "oid_of_nat (next_oid d)"
  let ?doc = "stored_doc ?oid (MTemplate t)"
  let ?d1 = "d\<lparr>colls := (colls d)(''jerseytemplate'' := colls d ''jerseytemplate'' @ [?doc]),
               next_oid := next_oid d + 1\<rparr>"
  let ?w1 = "w\<lparr>db := Some ?d1, trace := trace w @ [InsertOne ''jerseytemplate'']\<rparr>"
  have c: "create_template t w = (Returned [(''id'', PStr (str_ObjectId ?oid))], ?w1)"
    using assms(1,2) by (rule create_template_run)
  have v: "validate_all (colls d ''jerseytemplate'' @ [?doc]) = Inr (ts @ [t])"
    using assms(3) new_JerseyTemplate_dump[of ?oid t]
    by (simp add: validate_all_append bind_exn_def)
  have l: "fst (list_templates ?w1) = Returned (ts @ [t])"
    using assms(2) v by (simp add: list_templates_def get_documents_def)
  have k: "\<forall>item\<in>set (templates_json (ts @ [t])).
             map fst item = [''sport'', ''name'', ''colors'', ''preview_url'', ''svg'', ''is_public'']"
    by (auto simp: templates_json_def dump_JerseyTemplate_keys)
  have n: "new_JerseyTemplate (dump_JerseyTemplate t) = Inr t"
    by (rule new_JerseyTemplate_of_dump)
  from c l k n show ?thesis by (simp add: templates_json_def)
qed

theorem create_then_list_templates_witness:
  "fst (create_template t_demo w_empty)
     = Returned [(''id'', PStr (str_ObjectId (oid_of_nat 0)))]
   \<and> fst (list_templates (snd (create_template t_demo w_empty))) = Returned ([] @ [t_demo])
   \<and> templates_json ([] @ [t_demo]) = templates_json [] @ [dump_JerseyTemplate t_demo]"
proof -
  have 1: "db w_empty = Some \<lparr>colls = (\<lambda>_. []), next_oid = 0, reachable = True\<rparr>"
    by (simp add: w_empty_def)
  have 2: "reachable \<lparr>colls = (\<lambda>_. []), next_oid = 0, reachable = True\<rparr>" by simp
  have 3: "validate_all (colls \<lparr>colls = (\<lambda>_. []), next_oid = 0, reachable = True\<rparr>
             ''jerseytemplate'') = Inr []"
    by simp
  from create_then_list_templates[OF 1 2 3, of t_demo] show ?thesis by simp
qed

section \<open>Team import\<close>

lemma utf8_decode_ascii: "list_all (\<lambda>b. b < 128) bs \<Longrightarrow> utf8_decode bs = Some bs"
  by (induction bs) simp_all

lemmas csv_simps = parse_save_field_def parse_add_char_def
  is_newline_def after_newline_def start_field_def field_limit_def bind_exn_def

lemma parse_reset_fields:
  "rd_state parse_reset = START_RECORD" "rd_field parse_reset = []" "rd_fields parse_reset = []"
  by (simp_all add: parse_reset_def)

lemma feed_header:
  "feed_line parse_reset (ustr ''name,number,size'' @ [10])
     = Inr \<lparr>rd_state = START_RECORD, rd_field = [],
            rd_fields = [ustr ''name'', ustr ''number'', ustr ''size'']\<rparr>"
  by (simp add: ustr_def csv_simps parse_reset_def)



lemma feed_player:
  "feed_line parse_reset (ustr ''Asha,7,m'' @ [10])
     = Inr \<lparr>rd_state = START_RECORD, rd_field = [],
            rd_fields = [ustr ''Asha'', ustr ''7'', ustr ''m'']\<rparr>"
  by (simp add: ustr_def csv_simps parse_reset_def)






lemma reader_one_player:
  "csv_reader csv_one_player
     = ([[ustr ''name'', ustr ''number'', ustr ''size''], [ustr ''Asha'', ustr ''7'', ustr ''m'']],
        None)"
proof -
  have "lines_from [] csv_one_player = [ustr ''name,number,size'' @ [10], ustr ''Asha,7,m'' @ [10]]"
    by (simp add: csv_one_player_def ustr_def)
  then show ?thesis
    by (simp add: csv_reader_def feed_header feed_player parse_reset_fields)
qed

lemma decode_examples:
  "utf8_decode csv_blank_fields = Some csv_blank_fields"
  "utf8_decode csv_spaces_line = Some csv_spaces_line"
  "utf8_decode csv_blank_line = Some csv_blank_line"
  "utf8_decode csv_one_player = Some csv_one_player"
  by (rule utf8_decode_ascii,
      simp add: csv_blank_fields_def csv_spaces_line_def csv_blank_line_def csv_one_player_def
        ustr_def)+

lemma header_neq: "ustr ''name'' \<noteq> ustr ''number''" "ustr ''name'' \<noteq> ustr ''size''"
  "ustr ''number'' \<noteq> ustr ''size''" "ustr ''number'' \<noteq> ustr ''name''"
  "ustr ''size'' \<noteq> ustr ''name''" "ustr ''size'' \<noteq> ustr ''number''"
  by (simp_all add: ustr_def)



lemma entry_player:
  "row_entry tbl (dict_row [ustr ''name'', ustr ''number'', ustr ''size'']
                    [ustr ''Asha'', ustr ''7'', ustr ''m''])
     = Inr \<lparr>entry_name = ustr ''Asha'', number = ustr ''7'', entry_size = SizeM\<rparr>"
  by (simp add: row_entry_def dict_row_def row_get_def header_neq strip_def upper_def
        new_TeamRosterEntry_def size_of_str_def)
     (simp add: ustr_def is_whitespace_def)


text \<open>A record with a field gives a row that is not empty, whatever the header.\<close>

lemma dict_row_not_empty: "rec \<noteq> [] \<Longrightarrow> \<not> row_empty (dict_row fieldnames rec)"
  by (cases fieldnames; cases rec) (simp_all add: row_empty_def dict_row_def)



lemma create_document_down:
  assumes "db w = None \<or> (\<exists>d. db w = Some d \<and> \<not> reachable d)"
  shows "\<exists>w'. create_document coll m w = (Inl StorageError, w') \<and> db w' = db w"
  using assms by (auto simp: create_document_def)

lemma DictReader_rows:
  "csv_reader txt = (header # recs, err) \<Longrightarrow>
   DictReader txt = (map (dict_row header) (filter (\<lambda>rec. rec \<noteq> []) recs), err)"
  by (simp add: DictReader_def)

lemma import_team_rows:
  assumes "utf8_decode content = Some txt" and "DictReader txt = (rows, None)"
    and "roster_loop tbl [] rows = Inr r"
  shows "import_team tbl tn sp content w =
     (case create_document ''team'' (MTeam (new_Team tn sp r)) w of
        (Inl e, w') \<Rightarrow> (HTTPException 400 (InvalidCSV e), w')
      | (Inr i, w') \<Rightarrow> (Returned [(''id'', PStr i), (''count'', PInt (int (length r)))], w'))"
  by (simp add: import_team_def import_body_def assms split: prod.splits sum.splits)


lemma loop_one:
  "rec \<noteq> [] \<Longrightarrow> roster_loop tbl acc (dict_row h rec # rows)
     = bind_exn (row_entry tbl (dict_row h rec)) (\<lambda>e. roster_loop tbl (acc @ [e]) rows)"
  by (simp add: dict_row_not_empty)








section \<open>Failures of the store and of the decoding\<close>

text \<open>
  C6: what the code does. \<open>POST /api/team/import\<close> calls \<open>create_document\<close> inside the
  \<open>try\<close> whose handler answers 400 "Invalid CSV": when the store is not configured or
  does not answer, every import ends in a 400, whatever the upload, where the claim
  (and \<open>create_template\<close>, \<open>create_tier\<close> and \<open>checkout\<close>) says 500.
\<close>

theorem import_team_store_failure_is_400:
  assumes "db w = None \<or> (\<exists>d. db w = Some d \<and> \<not> reachable d)"
  shows "status_code (fst (import_team tbl tn sp content w)) = 400
       \<and> db (snd (import_team tbl tn sp content w)) = db w
       \<and> status_code (fst (create_template t w)) = 500"
proof -
  have c: "\<exists>w'. create_document coll m w = (Inl StorageError, w') \<and> db w' = db w" for coll m
    using assms by (rule create_document_down)
  obtain res w1 where b: "import_body tbl tn sp content w = (res, w1)"
    by (cases "import_body tbl tn sp content w")
  have "(\<exists>e. res = Inl e) \<and> db w1 = db w"
  proof (cases "utf8_decode content")
    case None
    with b show ?thesis by (auto simp: import_body_def)
  next
    case (Some text0)
    obtain rows err where dr: "DictReader text0 = (rows, err)" by (cases "DictReader text0")
    show ?thesis
    proof (cases "roster_loop tbl [] rows")
      case (Inl e)
      with b Some dr show ?thesis by (auto simp: import_body_def)
    next
      case (Inr r)
      show ?thesis
      proof (cases err)
        case (Some e)
        with b \<open>utf8_decode content = Some text0\<close> dr Inr show ?thesis
          by (auto simp: import_body_def)
      next
        case None
        from c[of "''team''" "MTeam (new_Team tn sp r)"] obtain w' where
          "create_document ''team'' (MTeam (new_Team tn sp r)) w = (Inl StorageError, w')"
          "db w' = db w" by blast
        with b \<open>utf8_decode content = Some text0\<close> dr Inr None show ?thesis
          by (auto simp: import_body_def)
      qed
    qed
  qed
  then have i: "status_code (fst (import_team tbl tn sp content w)) = 400
       \<and> db (snd (import_team tbl tn sp content w)) = db w"
    using b by (auto simp: import_team_def)
  from c[of "''jerseytemplate''" "MTemplate t"]
  have "status_code (fst (create_template t w)) = 500"
    by (auto simp: create_template_def)
  with i show ?thesis by simp
qed

theorem import_team_store_failure_is_400_witness:
  "fst (import_team no_table (ustr ''Lions'') (ustr ''cricket'') csv_one_player w_down)
     = HTTPException 400 (InvalidCSV StorageError)
   \<and> status_code (fst (import_team no_table (ustr ''Lions'') (ustr ''cricket'')
                         csv_one_player w_down)) = 400
   \<and> status_code (fst (import_team no_table (ustr ''Lions'') (ustr ''cricket'')
                         csv_one_player w_unreachable)) = 400
   \<and> status_code (fst (create_template t_demo w_down)) = 500"
proof -
  have 1: "db w_down = None \<or> (\<exists>d. db w_down = Some d \<and> \<not> reachable d)"
    by (simp add: w_down_def)
  have 2: "db w_unreachable = None \<or> (\<exists>d. db w_unreachable = Some d \<and> \<not> reachable d)"
    by (simp add: w_unreachable_def)
  let ?h = "[ustr ''name'', ustr ''number'', ustr ''size'']"
  have d: "DictReader csv_one_player = ([dict_row ?h [ustr ''Asha'', ustr ''7'', ustr ''m'']], None)"
    using DictReader_rows[OF reader_one_player] by simp
  have r: "roster_loop no_table [] [dict_row ?h [ustr ''Asha'', ustr ''7'', ustr ''m'']]
           = Inr [\<lparr>entry_name = ustr ''Asha'', number = ustr ''7'', entry_size = SizeM\<rparr>]"
    by (simp add: loop_one entry_player bind_exn_def del: roster_loop.simps(2))
  have e: "fst (import_team no_table (ustr ''Lions'') (ustr ''cricket'') csv_one_player w_down)
     = HTTPException 400 (InvalidCSV StorageError)"
    unfolding import_team_rows[OF decode_examples(4) d r]
    by (simp add: create_document_def w_down_def)
  from import_team_store_failure_is_400[OF 1, of no_table "ustr ''Lions''" "ustr ''cricket''"
         csv_one_player t_demo]
       import_team_store_failure_is_400[OF 2, of no_table "ustr ''Lions''" "ustr ''cricket''"
         csv_one_player t_demo] e
  show ?thesis by simp
qed

text \<open>
  C8. When the bytes uploaded are not valid UTF-8 (the decoding raises), for every
  team name, sport and state of the store, \<open>POST /api/team/import\<close> answers the 400 and
  leaves the world as it was: nothing is written, no operation is sent to the store.
\<close>

theorem import_team_invalid_utf8:
  assumes "utf8_decode content = None"
  shows "import_team tbl tn sp content w = (HTTPException 400 (InvalidCSV UnicodeDecodeError), w)
       \<and> status_code (fst (import_team tbl tn sp content w)) = 400"
  using assms by (simp add: import_team_def import_body_def)

theorem import_team_invalid_utf8_witness:
  "utf8_decode (ustr ''name,number,size'' @ [10, 255, 44, 55, 44, 77, 10]) = None
   \<and> import_team no_table (ustr ''Lions'') (ustr ''cricket'')
        (ustr ''name,number,size'' @ [10, 255, 44, 55, 44, 77, 10]) w_one
       = (HTTPException 400 (InvalidCSV UnicodeDecodeError), w_one)"
proof -
  have 1: "utf8_decode (ustr ''name,number,size'' @ [10, 255, 44, 55, 44, 77, 10]) = None"
    by (simp add: ustr_def)
  from import_team_invalid_utf8[OF 1, of no_table "ustr ''Lions''" "ustr ''cricket''" w_one] 1
  show ?thesis by simp
qed

end
